theory Spec2Isabelle
  imports Complex_Main "HOL-Library.Log_Nat"
begin

section \<open>Floating-point values as the script sees them\<close>

text \<open>
  The script computes with Python floats and with pandas columns of float64. The model
  keeps the special values that decide the control flow (the two zeros, the two
  infinities and not-a-number) and takes every other value of the indicators, the prices
  and the loss accumulator as an exact real. The position sizing, whose result depends on
  how each operation rounds, is modelled in binary64 arithmetic further down.
  \<open>Fin 0\<close> is \<open>+0.0\<close>, \<open>NegZero\<close> is \<open>-0.0\<close>.
\<close>

datatype pyfloat = Fin real | NegZero | PInf | NInf | NaN

fun signbit :: "pyfloat \<Rightarrow> bool" where
  "signbit (Fin r) = (r < 0)"
| "signbit NegZero = True"
| "signbit PInf = False"
| "signbit NInf = True"
| "signbit NaN = False"

fun fl_val :: "pyfloat \<Rightarrow> real" where
  "fl_val (Fin r) = r"
| "fl_val _ = 0"

fun is_finite :: "pyfloat \<Rightarrow> bool" where
  "is_finite (Fin r) = True"
| "is_finite NegZero = True"
| "is_finite _ = False"

fun is_inf :: "pyfloat \<Rightarrow> bool" where
  "is_inf PInf = True"
| "is_inf NInf = True"
| "is_inf _ = False"

definition is_zero :: "pyfloat \<Rightarrow> bool" where
  "is_zero x = (x = Fin 0 \<or> x = NegZero)"

definition zero_of :: "bool \<Rightarrow> pyfloat" where
  "zero_of neg = (if neg then NegZero else Fin 0)"

definition inf_of :: "bool \<Rightarrow> pyfloat" where
  "inf_of neg = (if neg then NInf else PInf)"

definition fin_of :: "bool \<Rightarrow> real \<Rightarrow> pyfloat" where
  "fin_of neg r = (if r = 0 then zero_of neg else Fin r)"

fun fl_neg :: "pyfloat \<Rightarrow> pyfloat" where
  "fl_neg (Fin r) = (if r = 0 then NegZero else Fin (- r))"
| "fl_neg NegZero = Fin 0"
| "fl_neg PInf = NInf"
| "fl_neg NInf = PInf"
| "fl_neg NaN = NaN"

fun fl_add :: "pyfloat \<Rightarrow> pyfloat \<Rightarrow> pyfloat" where
  "fl_add NaN y = NaN"
| "fl_add x NaN = NaN"
| "fl_add PInf NInf = NaN"
| "fl_add NInf PInf = NaN"
| "fl_add PInf y = PInf"
| "fl_add x PInf = PInf"
| "fl_add NInf y = NInf"
| "fl_add x NInf = NInf"
| "fl_add NegZero NegZero = NegZero"
| "fl_add x y = Fin (fl_val x + fl_val y)"

definition fl_sub :: "pyfloat \<Rightarrow> pyfloat \<Rightarrow> pyfloat" where
  "fl_sub x y = fl_add x (fl_neg y)"

text \<open>
  Division of float64 values in a pandas column: a zero divisor gives an infinity, or
  not-a-number for \<open>0 / 0\<close>; nothing is raised.
\<close>

definition fl_div :: "pyfloat \<Rightarrow> pyfloat \<Rightarrow> pyfloat" where
  "fl_div x y =
     (if x = NaN \<or> y = NaN then NaN
      else if is_inf x then (if is_inf y then NaN else inf_of (signbit x \<noteq> signbit y))
      else if is_inf y then zero_of (signbit x \<noteq> signbit y)
      else if fl_val y = 0 then
        (if fl_val x = 0 then NaN else inf_of (signbit x \<noteq> signbit y))
      else fin_of (signbit x \<noteq> signbit y) (fl_val x / fl_val y))"

text \<open>Comparisons: every comparison with not-a-number is false; the two zeros are equal.\<close>

definition fl_lt :: "pyfloat \<Rightarrow> pyfloat \<Rightarrow> bool" where
  "fl_lt x y =
     (if x = NaN \<or> y = NaN then False
      else if x = NInf then y \<noteq> NInf
      else if y = PInf then x \<noteq> PInf
      else if x = PInf \<or> y = NInf then False
      else fl_val x < fl_val y)"

definition fl_gt :: "pyfloat \<Rightarrow> pyfloat \<Rightarrow> bool" where
  "fl_gt x y = fl_lt y x"

section \<open>The pandas column operations the script uses\<close>

text \<open>\<open>Series.diff()\<close>: the first row is not-a-number, every other row is the
  difference to the row before.\<close>

fun diff_from :: "pyfloat \<Rightarrow> pyfloat list \<Rightarrow> pyfloat list" where
  "diff_from prev [] = []"
| "diff_from prev (y # ys) = fl_sub y prev # diff_from y ys"

fun diff :: "pyfloat list \<Rightarrow> pyfloat list" where
  "diff [] = []"
| "diff (x # xs) = NaN # diff_from x xs"

text \<open>\<open>delta.where(delta > 0, 0)\<close> and \<open>delta.where(delta < 0, 0)\<close>: a row is kept
  where the condition holds and replaced by 0 elsewhere, also where it is not-a-number.\<close>

definition where_gt0 :: "pyfloat list \<Rightarrow> pyfloat list" where
  "where_gt0 delta = map (\<lambda>d. if fl_gt d (Fin 0) then d else Fin 0) delta"

definition where_lt0 :: "pyfloat list \<Rightarrow> pyfloat list" where
  "where_lt0 delta = map (\<lambda>d. if fl_lt d (Fin 0) then d else Fin 0) delta"

text \<open>
  \<open>Series.rolling(w).mean()\<close> with the default \<open>min_periods = w\<close>: row \<open>i\<close> is the
  mean of rows \<open>i - w + 1 .. i\<close>, and not-a-number while fewer than \<open>w\<close> rows exist or
  when a row of the window is not a finite number. \<open>window_mean w ys\<close> is the value at
  the last row of \<open>ys\<close>.
\<close>

definition window_mean :: "nat \<Rightarrow> pyfloat list \<Rightarrow> pyfloat" where
  "window_mean w ys =
     (if w = 0 \<or> length ys < w then NaN
      else let win = drop (length ys - w) ys
           in if list_all is_finite win then Fin (sum_list (map fl_val win) / real w)
              else NaN)"

definition rolling_mean :: "nat \<Rightarrow> pyfloat list \<Rightarrow> pyfloat list" where
  "rolling_mean w xs = map (\<lambda>i. window_mean w (take (Suc i) xs)) [0..<length xs]"

section \<open>Configuration, session state and the broker's answers\<close>

datatype py_error = IndexError | ZeroDivisionError | AttributeError

record config =
  symbol :: string
  sl_pips :: int
  tp_pips :: int
  sma_period :: nat
  rsi_period :: nat
  risk_percent :: real
  magic_number :: int
  bars :: nat
  loop_interval_minutes :: nat
  daily_max_loss :: real
  daily_loss_reset_hour :: int

definition default_config :: config where
  "default_config =
     \<lparr>symbol = ''EURUSD'', sl_pips = 5, tp_pips = 10, sma_period = 50, rsi_period = 14,
      risk_percent = 1, magic_number = 123456, bars = 100, loop_interval_minutes = 5,
      daily_max_loss = 50, daily_loss_reset_hour = 0\<rparr>"

text \<open>The two module-level variables the loop mutates; a date is its day number.\<close>

record session =
  daily_realized_loss :: real
  last_reset_date :: int

record bar =
  bar_time :: int
  bar_open :: real
  bar_high :: real
  bar_low :: real
  bar_close :: real

section \<open>Indicators of the latest bar\<close>

definition df_close :: "bar list \<Rightarrow> pyfloat list" where
  "df_close rates = map (\<lambda>b. Fin (bar_close b)) rates"

definition df_sma :: "config \<Rightarrow> bar list \<Rightarrow> pyfloat list" where
  "df_sma cfg rates = rolling_mean (sma_period cfg) (df_close rates)"

definition gain :: "config \<Rightarrow> bar list \<Rightarrow> pyfloat list" where
  "gain cfg rates = rolling_mean (rsi_period cfg) (where_gt0 (diff (df_close rates)))"

definition loss :: "config \<Rightarrow> bar list \<Rightarrow> pyfloat list" where
  "loss cfg rates =
     map fl_neg (rolling_mean (rsi_period cfg) (where_lt0 (diff (df_close rates))))"

definition rs :: "config \<Rightarrow> bar list \<Rightarrow> pyfloat list" where
  "rs cfg rates = map2 fl_div (gain cfg rates) (loss cfg rates)"

text \<open>\<open>100 - (100 / (1 + rs))\<close>, row by row.\<close>

definition rsi_of_rs :: "pyfloat \<Rightarrow> pyfloat" where
  "rsi_of_rs r = fl_sub (Fin 100) (fl_div (Fin 100) (fl_add (Fin 1) r))"

definition df_rsi :: "config \<Rightarrow> bar list \<Rightarrow> pyfloat list" where
  "df_rsi cfg rates = map rsi_of_rs (rs cfg rates)"

text \<open>\<open>df.iloc[-1]\<close> raises IndexError on a frame without rows.\<close>

definition iloc_last :: "'a list \<Rightarrow> py_error + 'a" where
  "iloc_last xs = (if xs = [] then Inl IndexError else Inr (last xs))"

record latest_row =
  close_price :: pyfloat
  sma :: pyfloat
  rsi :: pyfloat

definition latest :: "config \<Rightarrow> bar list \<Rightarrow> py_error + latest_row" where
  "latest cfg rates =
     (case iloc_last (zip (df_close rates) (zip (df_sma cfg rates) (df_rsi cfg rates))) of
        Inl e \<Rightarrow> Inl e
      | Inr (c, m, r) \<Rightarrow> Inr \<lparr>close_price = c, sma = m, rsi = r\<rparr>)"

section \<open>Entry conditions\<close>

definition should_buy :: "latest_row \<Rightarrow> bool" where
  "should_buy row = (fl_gt (close_price row) (sma row) \<and> fl_lt (rsi row) (Fin 30))"

definition should_sell :: "latest_row \<Rightarrow> bool" where
  "should_sell row = (fl_lt (close_price row) (sma row) \<and> fl_gt (rsi row) (Fin 70))"

section \<open>Position sizing\<close>

text \<open>
  A Python float is a binary64 number: 53 significant bits, every operation rounded to
  the nearest representable value, a tie going to the even significand. \<open>double x\<close>
  is the binary64 value nearest to the real \<open>x\<close>, so \<open>double (a * b)\<close> is the float
  product of the floats \<open>a\<close> and \<open>b\<close>, and \<open>double 0.01\<close> is what the literal
  \<open>0.01\<close> denotes. \<open>float_exp x\<close> is the binary exponent of \<open>x\<close>, with
  \<open>2 ^ float_exp x \<le> |x| < 2 ^ (float_exp x + 1)\<close>. The exponent range is not bounded:
  magnitudes above \<open>1.8e308\<close> or below \<open>2.2e-308\<close> are outside the model.
\<close>

definition round_half_even :: "real \<Rightarrow> int" where
  "round_half_even x =
     (let f = \<lfloor>x\<rfloor>; d = x - of_int f
      in if d < 1 / 2 then f else if 1 / 2 < d then f + 1 else if even f then f else f + 1)"

definition float_exp :: "real \<Rightarrow> int" where
  "float_exp x =
     (if 1 \<le> \<bar>x\<bar> then int (floorlog 2 (nat \<lfloor>\<bar>x\<bar>\<rfloor>)) - 1
      else - int (floorlog 2 (nat (\<lceil>1 / \<bar>x\<bar>\<rceil> - 1))))"

definition double :: "real \<Rightarrow> real" where
  "double x =
     (if x = 0 then 0
      else of_int (round_half_even (x / 2 powi (float_exp x - 52))) * 2 powi (float_exp x - 52))"

text \<open>
  Python's \<open>round(x, ndigits)\<close> on a float takes the exact value of \<open>x\<close>, rounds it
  to \<open>ndigits\<close> decimal places, a tie going to the even digit, and returns the float
  nearest to that decimal.
\<close>

definition py_round :: "real \<Rightarrow> nat \<Rightarrow> real" where
  "py_round x ndigits = double (of_int (round_half_even (x * 10 ^ ndigits)) / 10 ^ ndigits)"

record AccountInfo =
  balance :: real

record SymbolInfo =
  point :: real
  trade_tick_size :: real
  trade_tick_value :: real

record Tick =
  bid :: real
  ask :: real

text \<open>Division of two Python floats raises ZeroDivisionError on a zero divisor.\<close>

definition pip_value_per_lot :: "SymbolInfo \<Rightarrow> py_error + real" where
  "pip_value_per_lot info =
     (if trade_tick_size info = 0 then Inl ZeroDivisionError
      else Inr (double (trade_tick_value info / trade_tick_size info)))"

text \<open>Lines 97-100. The integer \<open>sl_pips\<close> is converted to a float before it is
  multiplied; the literals \<open>100\<close> and \<open>0.01\<close> are floats.\<close>

definition lot_size :: "config \<Rightarrow> real \<Rightarrow> real \<Rightarrow> py_error + real" where
  "lot_size cfg bal pvl =
     (let risk_money = double (bal * double (risk_percent cfg / 100));
          divisor = double (double (of_int (sl_pips cfg)) * pvl)
      in if divisor = 0 then Inl ZeroDivisionError
         else let lot = py_round (double (risk_money / divisor)) 2
              in Inr (if lot < double 0.01 then double 0.01 else lot))"

text \<open>Rounding to two decimals in the words of the specification: \<open>k\<close> hundredths
  are nearest to \<open>x\<close>, and where two are equally near, \<open>k\<close> is the even one.\<close>

definition nearest_hundredth :: "real \<Rightarrow> int \<Rightarrow> bool" where
  "nearest_hundredth x k =
     (\<bar>x * 100 - of_int k\<bar> \<le> 1 / 2 \<and> (\<bar>x * 100 - of_int k\<bar> = 1 / 2 \<longrightarrow> even k))"

section \<open>Orders, deals and the events of an iteration\<close>

datatype order_type = ORDER_TYPE_BUY | ORDER_TYPE_SELL

datatype trade_action = TRADE_ACTION_DEAL

datatype order_time = ORDER_TIME_GTC

datatype order_filling = ORDER_FILLING_IOC

datatype trade_retcode = TRADE_RETCODE_DONE | TRADE_RETCODE_OTHER int

datatype deal_type = DEAL_TYPE_BUY | DEAL_TYPE_SELL | DEAL_TYPE_OTHER int

record TradeRequest =
  req_action :: trade_action
  req_symbol :: string
  req_volume :: real
  req_type :: order_type
  req_price :: real
  req_sl :: real
  req_tp :: real
  req_deviation :: int
  req_magic :: int
  req_comment :: string
  req_type_time :: order_time
  req_type_filling :: order_filling

record OrderSendResult =
  retcode :: trade_retcode
  order :: int

record TradeDeal =
  magic :: int
  deal_type :: deal_type
  profit :: real

text \<open>
  What one pass through the loop body reads from outside: the clock (read once per
  iteration: the date as a day number and the hour of \<open>now\<close>) and the answer of each
  terminal call, \<open>None\<close> where the call returns \<open>None\<close>.
\<close>

record env =
  today :: int
  hour :: int
  account_info :: "AccountInfo option"
  copy_rates_from_pos :: "bar list option"
  symbol_info :: "SymbolInfo option"
  symbol_info_tick :: "Tick option"
  order_send :: "TradeRequest \<Rightarrow> OrderSendResult option"
  history_deals_get :: "TradeDeal list option"

text \<open>What an iteration does to the outside, in order: terminal calls, console lines, sleep.\<close>

datatype event =
    Call_account_info
  | Call_copy_rates_from_pos
  | Call_symbol_info
  | Call_symbol_info_tick
  | Call_order_send TradeRequest
  | Call_history_deals_get
  | Call_shutdown
  | Print_daily_loss_reset
  | Print_max_loss_reached
  | Print_failed_account_info
  | Print_failed_market_data
  | Print_failed_symbol_info
  | Print_trade_placed int
  | Print_trade_failed trade_retcode
  | Print_no_trade
  | Print_daily_loss real
  | Sleep nat

text \<open>How a loop body ends other than by reaching its last line.\<close>

datatype abort = Break | Raise py_error

section \<open>The loop body\<close>

text \<open>Lines 42-46: the daily reset.\<close>

definition reset_due :: "config \<Rightarrow> session \<Rightarrow> env \<Rightarrow> bool" where
  "reset_due cfg s e = (today e \<noteq> last_reset_date s \<and> daily_loss_reset_hour cfg \<le> hour e)"

definition daily_reset :: "config \<Rightarrow> session \<Rightarrow> env \<Rightarrow> event list \<times> session" where
  "daily_reset cfg s e =
     (if reset_due cfg s e
      then ([Print_daily_loss_reset], \<lparr>daily_realized_loss = 0, last_reset_date = today e\<rparr>)
      else ([], s))"

text \<open>Lines 111-124: the request dictionary of \<open>place_trade\<close>.\<close>

definition order_request ::
  "config \<Rightarrow> real \<Rightarrow> order_type \<Rightarrow> real \<Rightarrow> real \<Rightarrow> real \<Rightarrow> TradeRequest" where
  "order_request cfg lot ty price sl tp =
     \<lparr>req_action = TRADE_ACTION_DEAL, req_symbol = symbol cfg, req_volume = lot,
      req_type = ty, req_price = price, req_sl = sl, req_tp = tp, req_deviation = 5,
      req_magic = magic_number cfg, req_comment = ''Risk-Managed Algo Trade'',
      req_type_time = ORDER_TIME_GTC, req_type_filling = ORDER_FILLING_IOC\<rparr>"

text \<open>Lines 110-131: \<open>place_trade\<close>. A \<open>None\<close> from \<open>order_send\<close> has no \<open>retcode\<close>.\<close>

definition place_trade ::
  "config \<Rightarrow> env \<Rightarrow> real \<Rightarrow> order_type \<Rightarrow> real \<Rightarrow> real \<Rightarrow> real \<Rightarrow> event list \<times> py_error option"
where
  "place_trade cfg e lot ty price sl tp =
     (let request = order_request cfg lot ty price sl tp
      in case order_send e request of
           None \<Rightarrow> ([Call_order_send request], Some AttributeError)
         | Some result \<Rightarrow>
             ([Call_order_send request,
               if retcode result = TRADE_RETCODE_DONE then Print_trade_placed (order result)
               else Print_trade_failed (retcode result)], None))"

text \<open>Lines 133-147: check and place the order.\<close>

definition check_and_place ::
  "config \<Rightarrow> env \<Rightarrow> real \<Rightarrow> latest_row \<Rightarrow> real \<Rightarrow> Tick \<Rightarrow> event list \<times> py_error option"
where
  "check_and_place cfg e lot row pt tick =
     (if should_buy row then
        (let price = ask tick;
             sl = price - of_int (sl_pips cfg) * 10 * pt;
             tp = price + of_int (tp_pips cfg) * 10 * pt
         in place_trade cfg e lot ORDER_TYPE_BUY price sl tp)
      else if should_sell row then
        (let price = bid tick;
             sl = price + of_int (sl_pips cfg) * 10 * pt;
             tp = price - of_int (tp_pips cfg) * 10 * pt
         in place_trade cfg e lot ORDER_TYPE_SELL price sl tp)
      else ([Print_no_trade], None))"

text \<open>Lines 91-147: from the symbol metadata to the order.\<close>

definition size_and_trade ::
  "config \<Rightarrow> env \<Rightarrow> AccountInfo \<Rightarrow> latest_row \<Rightarrow> SymbolInfo \<Rightarrow> Tick \<Rightarrow> event list \<times> abort option"
where
  "size_and_trade cfg e account row info tick =
     (case pip_value_per_lot info of
        Inl err \<Rightarrow> ([], Some (Raise err))
      | Inr pvl \<Rightarrow>
          (case lot_size cfg (balance account) pvl of
             Inl err \<Rightarrow> ([], Some (Raise err))
           | Inr lot \<Rightarrow>
               (case check_and_place cfg e lot row (point info) tick of
                  (evs, r) \<Rightarrow> (evs, map_option Raise r))))"

text \<open>Lines 54-147: everything between the loss gate and the recomputation.\<close>

definition trade_step :: "config \<Rightarrow> env \<Rightarrow> event list \<times> abort option" where
  "trade_step cfg e =
     (case account_info e of
        None \<Rightarrow> ([Call_account_info, Print_failed_account_info], Some Break)
      | Some account \<Rightarrow>
          (case copy_rates_from_pos e of
             None \<Rightarrow>
               ([Call_account_info, Call_copy_rates_from_pos, Print_failed_market_data],
                Some Break)
           | Some rates \<Rightarrow>
               (case latest cfg rates of
                  Inl err \<Rightarrow> ([Call_account_info, Call_copy_rates_from_pos], Some (Raise err))
                | Inr row \<Rightarrow>
                    (case (symbol_info e, symbol_info_tick e) of
                       (Some info, Some tick) \<Rightarrow>
                         (case size_and_trade cfg e account row info tick of
                            (evs, r) \<Rightarrow>
                              ([Call_account_info, Call_copy_rates_from_pos, Call_symbol_info,
                                Call_symbol_info_tick] @ evs, r))
                     | _ \<Rightarrow>
                         ([Call_account_info, Call_copy_rates_from_pos, Call_symbol_info,
                           Call_symbol_info_tick, Print_failed_symbol_info], Some Break)))))"

text \<open>Lines 149-157: the accumulator is rebuilt from the deals the terminal returns. The
  condition is the source's \<open>a and b or c\<close>, which Python reads as \<open>(a and b) or c\<close>.\<close>

definition counts_deal :: "config \<Rightarrow> TradeDeal \<Rightarrow> bool" where
  "counts_deal cfg d =
     ((magic d = magic_number cfg \<and> deal_type d = DEAL_TYPE_SELL) \<or> deal_type d = DEAL_TYPE_BUY)"

fun sum_losses :: "config \<Rightarrow> real \<Rightarrow> TradeDeal list \<Rightarrow> real" where
  "sum_losses cfg acc [] = acc"
| "sum_losses cfg acc (d # ds) =
     sum_losses cfg
       (if counts_deal cfg d then acc + (if profit d < 0 then - profit d else 0) else acc) ds"

definition update_daily_loss :: "config \<Rightarrow> env \<Rightarrow> real" where
  "update_daily_loss cfg e =
     (case history_deals_get e of
        None \<Rightarrow> 0
      | Some closed_orders \<Rightarrow>
          if closed_orders = [] then 0 else sum_losses cfg 0 closed_orders)"

text \<open>The accumulator in the words of the specification: the losses of the deals that
  carry the strategy's magic number.\<close>

definition spec_daily_loss :: "config \<Rightarrow> TradeDeal list \<Rightarrow> real" where
  "spec_daily_loss cfg deals =
     sum_list (map (\<lambda>d. \<bar>profit d\<bar>)
       (filter (\<lambda>d. magic d = magic_number cfg \<and> profit d < 0) deals))"

text \<open>Line 49: the loss gate, on the session as the daily reset left it.\<close>

definition max_loss_reached :: "config \<Rightarrow> session \<Rightarrow> bool" where
  "max_loss_reached cfg s = (daily_max_loss cfg \<le> daily_realized_loss s)"

text \<open>Lines 40-162: one pass through the loop body. \<open>Inr s\<close> is the session after the
  sleep at the end of the pass, \<open>Inl\<close> a \<open>break\<close> or an exception nobody catches.\<close>

definition iteration :: "config \<Rightarrow> session \<Rightarrow> env \<Rightarrow> event list \<times> (abort + session)" where
  "iteration cfg s e =
     (case daily_reset cfg s e of
        (evs0, s1) \<Rightarrow>
          if max_loss_reached cfg s1 then
            (evs0 @ [Print_max_loss_reached, Sleep (loop_interval_minutes cfg * 60)], Inr s1)
          else
            (case trade_step cfg e of
               (evs1, Some a) \<Rightarrow> (evs0 @ evs1, Inl a)
             | (evs1, None) \<Rightarrow>
                 (let l = update_daily_loss cfg e
                  in (evs0 @ evs1 @
                        [Call_history_deals_get, Print_daily_loss (py_round l 2),
                         Sleep (loop_interval_minutes cfg * 60)],
                      Inr (s1\<lparr>daily_realized_loss := l\<rparr>)))))"

text \<open>Lines 39-165: the loop over the iterations the clock and the terminal allow,
  one \<open>env\<close> each; a \<open>break\<close> is followed by \<open>mt5.shutdown()\<close>. The result lists the
  events of each iteration that ran.\<close>

fun main_loop ::
  "config \<Rightarrow> session \<Rightarrow> env list \<Rightarrow> event list list \<times> (abort + session)" where
  "main_loop cfg s [] = ([], Inr s)"
| "main_loop cfg s (e # es) =
     (case iteration cfg s e of
        (evs, Inl Break) \<Rightarrow> ([evs @ [Call_shutdown]], Inl Break)
      | (evs, Inl (Raise err)) \<Rightarrow> ([evs], Inl (Raise err))
      | (evs, Inr s') \<Rightarrow> (case main_loop cfg s' es of (tr, out) \<Rightarrow> (evs # tr, out)))"

text \<open>The requests an iteration handed to \<open>order_send\<close>.\<close>

fun orders_sent :: "event list \<Rightarrow> TradeRequest list" where
  "orders_sent [] = []"
| "orders_sent (Call_order_send r # evs) = r # orders_sent evs"
| "orders_sent (ev # evs) = orders_sent evs"

text \<open>How often the daily reset fired on day \<open>d\<close> during a run.\<close>

definition resets_on :: "int \<Rightarrow> config \<Rightarrow> session \<Rightarrow> env list \<Rightarrow> nat" where
  "resets_on d cfg s es =
     length (filter (\<lambda>(e, evs). today e = d \<and> Print_daily_loss_reset \<in> set evs)
               (zip es (fst (main_loop cfg s es))))"

section \<open>Sample data\<close>

definition bar_at :: "real \<Rightarrow> bar" where
  "bar_at c = \<lparr>bar_time = 0, bar_open = c, bar_high = c, bar_low = c, bar_close = c\<rparr>"

text \<open>Fifty bars: thirty-five at 1.1000, a jump to 1.1200, then fourteen moves of one
  pip, thirteen down and one up. The close stays above the 50-bar average while the
  14-bar RSI is low.\<close>

definition pullback_rates :: "bar list" where
  "pullback_rates =
     map bar_at (replicate 35 1.1 @
       [1.12, 1.1199, 1.1198, 1.1197, 1.1196, 1.1195, 1.1194, 1.1195, 1.1194, 1.1193,
        1.1192, 1.1191, 1.119, 1.1189, 1.1188])"


definition short_rates :: "bar list" where
  "short_rates = map bar_at [1.1, 1.101, 1.102]"

definition flat_rates :: "bar list" where
  "flat_rates = map bar_at (replicate 50 1.1)"

text \<open>Thirty-five bars at 1.1000, then fifteen bars rising by one pip each.\<close>

definition rally_rates :: "bar list" where
  "rally_rates =
     map bar_at (replicate 35 1.1 @
       [1.1001, 1.1002, 1.1003, 1.1004, 1.1005, 1.1006, 1.1007, 1.1008, 1.1009, 1.101,
        1.1011, 1.1012, 1.1013, 1.1014, 1.1015])"

definition eurusd_info :: SymbolInfo where
  "eurusd_info = \<lparr>point = 0.00001, trade_tick_size = 0.00001, trade_tick_value = 0.0001\<rparr>"

definition eurusd_tick :: Tick where
  "eurusd_tick = \<lparr>bid = 1.1188, ask = 1.1189\<rparr>"

definition own_loss :: TradeDeal where
  "own_loss = \<lparr>magic = 123456, deal_type = DEAL_TYPE_SELL, profit = - 70\<rparr>"

definition foreign_buy_loss :: TradeDeal where
  "foreign_buy_loss = \<lparr>magic = 999, deal_type = DEAL_TYPE_BUY, profit = - 10\<rparr>"

definition sample_env :: env where
  "sample_env =
     \<lparr>today = 100, hour = 10, account_info = Some \<lparr>balance = 10000\<rparr>,
      copy_rates_from_pos = Some short_rates, symbol_info = Some eurusd_info,
      symbol_info_tick = Some eurusd_tick,
      order_send = (\<lambda>request. Some \<lparr>retcode = TRADE_RETCODE_DONE, order = 7\<rparr>),
      history_deals_get = Some [own_loss]\<rparr>"

section \<open>Entry conditions: properties\<close>

lemma fl_lt_asym: "fl_lt x y \<Longrightarrow> \<not> fl_lt y x"
  by (cases x; cases y) (auto simp: fl_lt_def)


lemma nan_no_signal:
  "sma row = NaN \<or> rsi row = NaN \<Longrightarrow> \<not> should_buy row \<and> \<not> should_sell row"
  by (auto simp: should_buy_def should_sell_def fl_gt_def fl_lt_def)

text \<open>
  Claim C9. For one snapshot of close, SMA and RSI the BUY condition (close above the
  SMA and RSI below 30) and the SELL condition (close below the SMA and RSI above 70)
  never hold together.
\<close>

theorem should_buy_sell_exclusive: "\<not> (should_buy row \<and> should_sell row)"
  using fl_lt_asym [of "close_price row" "sma row"]
  by (auto simp: should_buy_def should_sell_def fl_gt_def)

section \<open>Binary64 rounding: properties\<close>

lemmas float_eval = double_def float_exp_def compute_floorlog round_half_even_def Let_def
  power_int_minus

lemma rhe_bounds: "\<lfloor>x\<rfloor> \<le> round_half_even x \<and> round_half_even x \<le> \<lfloor>x\<rfloor> + 1"
  by (simp add: round_half_even_def Let_def)

lemma rhe_mono: "x \<le> y \<Longrightarrow> round_half_even x \<le> round_half_even y"
proof -
  assume xy: "x \<le> y"
  then have fl: "\<lfloor>x\<rfloor> \<le> \<lfloor>y\<rfloor>" by (rule floor_mono)
  show ?thesis
  proof (cases "\<lfloor>x\<rfloor> < \<lfloor>y\<rfloor>")
    case True
    then show ?thesis using rhe_bounds [of x] rhe_bounds [of y] by linarith
  next
    case False
    with fl have eq: "\<lfloor>x\<rfloor> = \<lfloor>y\<rfloor>" by simp
    with xy show ?thesis by (auto simp: round_half_even_def Let_def)
  qed
qed

lemma rhe_of_int: "round_half_even (of_int k) = k"
  by (simp add: round_half_even_def)

lemma rhe_nearest:
  "\<bar>x - of_int (round_half_even x)\<bar> \<le> 1 / 2 \<and>
   (\<bar>x - of_int (round_half_even x)\<bar> = 1 / 2 \<longrightarrow> even (round_half_even x))"
  unfolding round_half_even_def Let_def by (auto; linarith)

lemma float_exp_bounds:
  assumes "x \<noteq> 0"
  shows "2 powi float_exp x \<le> \<bar>x\<bar> \<and> \<bar>x\<bar> < 2 powi (float_exp x + 1)"
proof (cases "1 \<le> \<bar>x\<bar>")
  case True
  define n where "n = nat \<lfloor>\<bar>x\<bar>\<rfloor>"
  have rn: "real n = of_int \<lfloor>\<bar>x\<bar>\<rfloor>" by (simp add: n_def)
  have n: "0 < n" "real n \<le> \<bar>x\<bar>" "\<bar>x\<bar> < real n + 1"
  proof -
    show "0 < n" using True by (simp add: n_def)
    show "real n \<le> \<bar>x\<bar>" unfolding rn by linarith
    show "\<bar>x\<bar> < real n + 1" unfolding rn by linarith
  qed
  have e: "float_exp x = int (floorlog 2 n) - 1" using True by (simp add: float_exp_def n_def)
  have fl: "0 < floorlog 2 n" using n(1) by (simp add: floorlog_def)
  from floorlog_bounds [OF n(1), of 2]
  have b: "2 ^ (floorlog 2 n - 1) \<le> n" "n < 2 ^ floorlog 2 n" by auto
  have "(2::real) powi float_exp x = 2 ^ (floorlog 2 n - 1)"
    unfolding e using fl by (simp add: power_int_def nat_diff_distrib' of_nat_diff)
  also have "\<dots> \<le> real n"
    using b(1) by (metis of_nat_le_iff of_nat_numeral of_nat_power)
  also note n(2)
  finally have lower: "2 powi float_exp x \<le> \<bar>x\<bar>" .
  have "n + 1 \<le> 2 ^ floorlog 2 n" using b(2) by simp
  then have "real (n + 1) \<le> real (2 ^ floorlog 2 n)" by (rule iffD2 [OF of_nat_le_iff])
  then have "real n + 1 \<le> 2 ^ floorlog 2 n" by simp
  also have "\<dots> = (2::real) powi (float_exp x + 1)"
    unfolding e by (simp add: power_int_def)
  finally have "\<bar>x\<bar> < 2 powi (float_exp x + 1)" using n(3) by linarith
  with lower show ?thesis by blast
next
  case False
  define y where "y = 1 / \<bar>x\<bar>"
  define m where "m = nat (\<lceil>y\<rceil> - 1)"
  have x: "0 < \<bar>x\<bar>" "\<bar>x\<bar> < 1" using assms False by auto
  have y: "1 < y" using x by (simp add: y_def)
  then have c: "2 \<le> \<lceil>y\<rceil>" by linarith
  have rm: "real m = of_int \<lceil>y\<rceil> - 1" using c by (simp add: m_def)
  have m: "0 < m" "real m < y" "y \<le> real m + 1"
  proof -
    show "0 < m" using c by (simp add: m_def)
    show "real m < y" unfolding rm by linarith
    show "y \<le> real m + 1" unfolding rm by linarith
  qed
  have e: "float_exp x = - int (floorlog 2 m)"
    using False by (simp add: float_exp_def m_def y_def)
  have fl: "0 < floorlog 2 m" using m(1) by (simp add: floorlog_def)
  from floorlog_bounds [OF m(1), of 2]
  have b: "2 ^ (floorlog 2 m - 1) \<le> m" "m < 2 ^ floorlog 2 m" by auto
  have up: "y \<le> 2 ^ floorlog 2 m"
  proof -
    have "m + 1 \<le> 2 ^ floorlog 2 m" using b(2) by simp
    then have "real (m + 1) \<le> real (2 ^ floorlog 2 m)" by (rule iffD2 [OF of_nat_le_iff])
    then show ?thesis using m(3) by simp
  qed
  have lo: "2 ^ (floorlog 2 m - 1) < y"
  proof -
    have "(2::real) ^ (floorlog 2 m - 1) \<le> real m"
      using b(1) by (metis of_nat_le_iff of_nat_numeral of_nat_power)
    also note m(2)
    finally show ?thesis .
  qed
  have p1: "(2::real) powi (- int (floorlog 2 m)) = 1 / 2 ^ floorlog 2 m"
    by (simp add: power_int_minus field_simps)
  have p2: "(2::real) powi (- int (floorlog 2 m) + 1) = 1 / 2 ^ (floorlog 2 m - 1)"
  proof -
    have "- int (floorlog 2 m) + 1 = - int (floorlog 2 m - 1)" using fl by simp
    then have "(2::real) powi (- int (floorlog 2 m) + 1) = 2 powi (- int (floorlog 2 m - 1))"
      by (rule arg_cong)
    also have "\<dots> = 1 / 2 ^ (floorlog 2 m - 1)"
      unfolding power_int_minus by (simp add: field_simps)
    finally show ?thesis .
  qed
  have xy: "\<bar>x\<bar> = 1 / y" using x by (simp add: y_def)
  have "1 / 2 ^ floorlog 2 m \<le> 1 / y" using up y by (intro divide_left_mono) auto
  then have lower: "2 powi float_exp x \<le> \<bar>x\<bar>" unfolding e p1 xy .
  have "1 / y < 1 / 2 ^ (floorlog 2 m - 1)"
    using lo y by (intro divide_strict_left_mono mult_pos_pos) auto
  then have "\<bar>x\<bar> < 2 powi (float_exp x + 1)" unfolding e p2 xy .
  with lower show ?thesis by blast
qed

lemma powi_le_iff: "a \<le> b \<Longrightarrow> (2::real) powi a \<le> 2 powi b"
  by (rule power_int_increasing) auto

lemma float_exp_mono:
  assumes "x \<noteq> 0" "\<bar>x\<bar> \<le> \<bar>y\<bar>"
  shows "float_exp x \<le> float_exp y"
proof (rule ccontr)
  assume "\<not> float_exp x \<le> float_exp y"
  then have "float_exp y + 1 \<le> float_exp x" by simp
  then have "(2::real) powi (float_exp y + 1) \<le> 2 powi float_exp x"
    by (simp add: powi_le_iff)
  moreover have "y \<noteq> 0" using assms by auto
  ultimately show False
    using float_exp_bounds [OF assms(1)] float_exp_bounds [of y] assms(2) by linarith
qed

lemma float_exp_neg: "float_exp (- x) = float_exp x"
  by (simp add: float_exp_def)

lemma rhe_neg: "round_half_even (- x) = - round_half_even x"
proof -
  have "\<lfloor>- x\<rfloor> = - \<lfloor>x\<rfloor> - (if x = of_int \<lfloor>x\<rfloor> then 0 else 1)"
    by (auto simp: floor_eq_iff; linarith)
  then show ?thesis
    unfolding round_half_even_def Let_def by (auto; linarith)
qed

lemma double_neg: "double (- x) = - double x"
  by (simp add: double_def float_exp_neg rhe_neg)

lemma powi_split: "(2::real) powi e = 2 ^ 52 * 2 powi (e - 52)"
proof -
  have "e = 52 + (e - 52)" by simp
  then have "(2::real) powi e = 2 powi (52 + (e - 52))" by (rule arg_cong)
  also have "\<dots> = 2 powi 52 * 2 powi (e - 52)" by (rule power_int_add) simp
  finally show ?thesis by simp
qed

lemma double_lower:
  assumes "0 < x"
  shows "2 powi float_exp x \<le> double x"
proof -
  let ?u = "(2::real) powi (float_exp x - 52)"
  have u: "0 < ?u" by simp
  have "2 ^ 52 * ?u \<le> x"
    using float_exp_bounds [of x] assms powi_split [of "float_exp x"] by simp
  then have "of_int (2 ^ 52) \<le> x / ?u" using u by (simp add: pos_le_divide_eq)
  then have "round_half_even (of_int (2 ^ 52)) \<le> round_half_even (x / ?u)" by (rule rhe_mono)
  then have "(2 ^ 52 :: int) \<le> round_half_even (x / ?u)" unfolding rhe_of_int .
  then have "real_of_int (2 ^ 52) \<le> of_int (round_half_even (x / ?u))"
    by (rule iffD2 [OF of_int_le_iff])
  then have "2 ^ 52 * ?u \<le> of_int (round_half_even (x / ?u)) * ?u"
    using u by (simp add: mult_right_mono)
  then show ?thesis using assms powi_split [of "float_exp x"] by (simp add: double_def)
qed

lemma double_upper:
  assumes "0 < x"
  shows "double x \<le> 2 powi (float_exp x + 1)"
proof -
  let ?u = "(2::real) powi (float_exp x - 52)"
  have u: "0 < ?u" by simp
  have split: "(2::real) powi (float_exp x + 1) = 2 ^ 53 * ?u"
  proof -
    have "float_exp x + 1 = 53 + (float_exp x - 52)" by simp
    then have "(2::real) powi (float_exp x + 1) = 2 powi (53 + (float_exp x - 52))"
      by (rule arg_cong)
    also have "\<dots> = 2 powi 53 * ?u" by (rule power_int_add) simp
    finally show ?thesis by simp
  qed
  have "x \<le> 2 ^ 53 * ?u" using float_exp_bounds [of x] assms split by simp
  then have "x / ?u \<le> of_int (2 ^ 53)" using u by (simp add: pos_divide_le_eq)
  then have "round_half_even (x / ?u) \<le> round_half_even (of_int (2 ^ 53))" by (rule rhe_mono)
  then have "round_half_even (x / ?u) \<le> (2 ^ 53 :: int)" unfolding rhe_of_int .
  then have "real_of_int (round_half_even (x / ?u)) \<le> of_int (2 ^ 53)"
    by (rule iffD2 [OF of_int_le_iff])
  then have "of_int (round_half_even (x / ?u)) * ?u \<le> 2 ^ 53 * ?u"
    using u by (simp add: mult_right_mono)
  then show ?thesis using assms split by (simp add: double_def)
qed

text \<open>\<open>double x\<close> is within half a unit in the last place of \<open>x\<close>, and its
  significand has at most 53 bits.\<close>

lemma double_error:
  assumes "x \<noteq> 0"
  shows "\<bar>double x - x\<bar> \<le> 2 powi (float_exp x - 52) / 2"
proof -
  let ?u = "(2::real) powi (float_exp x - 52)"
  have u: "0 < ?u" by simp
  have "\<bar>x / ?u - of_int (round_half_even (x / ?u))\<bar> \<le> 1 / 2"
    using rhe_nearest [of "x / ?u"] by blast
  then have "\<bar>x / ?u - of_int (round_half_even (x / ?u))\<bar> * ?u \<le> 1 / 2 * ?u"
    using u by (intro mult_right_mono) auto
  moreover have "\<bar>x / ?u - of_int (round_half_even (x / ?u))\<bar> * ?u
      = \<bar>x - of_int (round_half_even (x / ?u)) * ?u\<bar>"
  proof -
    have "\<bar>x / ?u - of_int (round_half_even (x / ?u))\<bar> * ?u
        = \<bar>(x / ?u - of_int (round_half_even (x / ?u))) * ?u\<bar>"
      using u by (simp add: abs_mult)
    also have "(x / ?u - of_int (round_half_even (x / ?u))) * ?u
        = x - of_int (round_half_even (x / ?u)) * ?u"
      using u by (simp add: left_diff_distrib)
    finally show ?thesis .
  qed
  ultimately have "\<bar>x - of_int (round_half_even (x / ?u)) * ?u\<bar> \<le> ?u / 2" by simp
  then show ?thesis using assms by (simp add: double_def abs_minus_commute)
qed

lemma double_significand:
  assumes "0 < x"
  shows "\<exists>m. double x = of_int m * 2 powi (float_exp x - 52) \<and> 2 ^ 52 \<le> m \<and> m \<le> 2 ^ 53"
proof -
  let ?u = "(2::real) powi (float_exp x - 52)"
  let ?m = "round_half_even (x / ?u)"
  have u: "0 < ?u" by simp
  have d: "double x = of_int ?m * ?u" using assms by (simp add: double_def)
  have "2 ^ 52 * ?u \<le> of_int ?m * ?u"
    using double_lower [OF assms] powi_split [of "float_exp x"] d by simp
  then have "(2 ^ 52 :: real) \<le> of_int ?m" using u by (simp only: mult_le_cancel_right_pos)
  then have "real_of_int (2 ^ 52) \<le> of_int ?m" by simp
  then have lo: "2 ^ 52 \<le> ?m" by (rule iffD1 [OF of_int_le_iff])
  have "(2::real) powi (float_exp x + 1) = 2 * 2 powi float_exp x"
    by (simp add: power_int_add)
  then have "of_int ?m * ?u \<le> 2 ^ 53 * ?u"
    using double_upper [OF assms] powi_split [of "float_exp x"] d by simp
  then have "of_int ?m \<le> (2 ^ 53 :: real)" using u by (simp only: mult_le_cancel_right_pos)
  then have "real_of_int ?m \<le> of_int (2 ^ 53)" by simp
  then have "?m \<le> 2 ^ 53" by (rule iffD1 [OF of_int_le_iff])
  with lo d show ?thesis by blast
qed

lemma double_pos: "0 < x \<Longrightarrow> 0 < double x"
proof -
  assume "0 < x"
  from double_lower [OF this] have "2 powi float_exp x \<le> double x" .
  moreover have "(0::real) < 2 powi float_exp x" by simp
  ultimately show ?thesis by linarith
qed

lemma double_0: "double 0 = 0"
  by (simp add: double_def)

lemma double_mono_pos:
  assumes "0 < x" "x \<le> y"
  shows "double x \<le> double y"
proof -
  have y: "0 < y" using assms by simp
  have le: "float_exp x \<le> float_exp y" using assms by (intro float_exp_mono) auto
  show ?thesis
  proof (cases "float_exp x = float_exp y")
    case True
    let ?u = "(2::real) powi (float_exp y - 52)"
    have "x / ?u \<le> y / ?u" using assms(2) by (simp add: divide_right_mono)
    then have "round_half_even (x / ?u) \<le> round_half_even (y / ?u)" by (rule rhe_mono)
    then have "real_of_int (round_half_even (x / ?u)) \<le> of_int (round_half_even (y / ?u))"
      by (rule iffD2 [OF of_int_le_iff])
    then have "of_int (round_half_even (x / ?u)) * ?u \<le> of_int (round_half_even (y / ?u)) * ?u"
      by (simp add: mult_right_mono)
    then show ?thesis using assms(1) y True by (simp add: double_def)
  next
    case False
    then have "float_exp x + 1 \<le> float_exp y" using le by simp
    then have "(2::real) powi (float_exp x + 1) \<le> 2 powi float_exp y" by (rule powi_le_iff)
    then show ?thesis using double_upper [OF assms(1)] double_lower [OF y] by linarith
  qed
qed

lemma double_mono: "x \<le> y \<Longrightarrow> double x \<le> double y"
proof -
  assume xy: "x \<le> y"
  consider "0 < x" | "x \<le> 0" "0 \<le> y" | "y < 0" by linarith
  then show ?thesis
  proof cases
    case 1
    then show ?thesis using xy by (rule double_mono_pos)
  next
    case 2
    have "double x \<le> 0"
    proof (cases "x = 0")
      case True
      then show ?thesis by (simp add: double_0)
    next
      case False
      then have "0 < double (- x)" using 2 by (intro double_pos) simp
      then show ?thesis by (simp add: double_neg)
    qed
    moreover have "0 \<le> double y"
    proof (cases "y = 0")
      case True
      then show ?thesis by (simp add: double_0)
    next
      case False
      then have "0 < double y" using 2 by (intro double_pos) simp
      then show ?thesis by simp
    qed
    ultimately show ?thesis by linarith
  next
    case 3
    then have "double (- y) \<le> double (- x)" using xy by (intro double_mono_pos) auto
    then show ?thesis by (simp add: double_neg)
  qed
qed

lemma double_eq_0_iff: "double x = 0 \<longleftrightarrow> x = 0"
proof (cases "x = 0")
  case True
  then show ?thesis by (simp add: double_0)
next
  case False
  then consider "0 < x" | "0 < - x" by linarith
  then have "double x \<noteq> 0"
  proof cases
    case 1
    then show ?thesis using double_pos [of x] by simp
  next
    case 2
    then show ?thesis using double_pos [of "- x"] by (simp add: double_neg)
  qed
  then show ?thesis using False by simp
qed

lemma py_round_mono: "x \<le> y \<Longrightarrow> py_round x n \<le> py_round y n"
proof -
  assume "x \<le> y"
  then have "x * 10 ^ n \<le> y * 10 ^ n" by (simp add: mult_right_mono)
  then have "round_half_even (x * 10 ^ n) \<le> round_half_even (y * 10 ^ n)" by (rule rhe_mono)
  then have "real_of_int (round_half_even (x * 10 ^ n)) \<le> of_int (round_half_even (y * 10 ^ n))"
    by (rule iffD2 [OF of_int_le_iff])
  then have "of_int (round_half_even (x * 10 ^ n)) / 10 ^ n
      \<le> real_of_int (round_half_even (y * 10 ^ n)) / 10 ^ n"
    by (simp add: divide_right_mono)
  then show ?thesis unfolding py_round_def by (rule double_mono)
qed

lemma py_round_nonpos: "x \<le> 0 \<Longrightarrow> py_round x n \<le> 0"
  using py_round_mono [of x 0 n] by (simp add: py_round_def rhe_of_int [of 0, simplified] double_0)

lemma double_hundredth: "double (1 / 100) = 5764607523034235 / 576460752303423488"
  by (simp add: float_eval)

lemma double_hundredth_ge: "1 / 100 \<le> double (1 / 100)"
  unfolding double_hundredth by simp

lemma nearest_hundredth_rhe: "nearest_hundredth x (round_half_even (x * 100))"
  using rhe_nearest [of "x * 100"] by (simp add: nearest_hundredth_def)

lemma nearest_hundredth_unique:
  assumes "nearest_hundredth x k" "nearest_hundredth x k'"
  shows "k = k'"
proof (rule ccontr)
  assume ne: "k \<noteq> k'"
  have d: "\<bar>x * 100 - of_int k\<bar> \<le> 1 / 2" "\<bar>x * 100 - of_int k'\<bar> \<le> 1 / 2"
    using assms by (simp_all add: nearest_hundredth_def)
  then have "\<bar>real_of_int k - of_int k'\<bar> \<le> 1" by linarith
  then have "\<bar>real_of_int (k - k')\<bar> \<le> 1" by simp
  then have "\<bar>k - k'\<bar> \<le> 1" by linarith
  with ne have one: "\<bar>k - k'\<bar> = 1" by linarith
  then have "\<bar>real_of_int k - of_int k'\<bar> = 1"
    by (metis of_int_1 of_int_abs of_int_diff)
  with d have "\<bar>x * 100 - of_int k\<bar> = 1 / 2" "\<bar>x * 100 - of_int k'\<bar> = 1 / 2"
    by linarith+
  then have "even k" "even k'" using assms by (simp_all add: nearest_hundredth_def)
  then have "even (k - k')" by simp
  with one show False by presburger
qed

section \<open>Position sizing: properties\<close>

lemma divisor_eq_0_iff:
  "double (double (of_int (sl_pips cfg)) * pvl) = 0 \<longleftrightarrow> of_int (sl_pips cfg) * pvl = 0"
  by (simp add: double_eq_0_iff)

lemma lot_size_Inr:
  "of_int (sl_pips cfg) * pvl \<noteq> 0 \<Longrightarrow>
   lot_size cfg bal pvl =
     Inr (max (double 0.01)
       (py_round (double (double (bal * double (risk_percent cfg / 100)) /
          double (double (of_int (sl_pips cfg)) * pvl))) 2))"
  using divisor_eq_0_iff [of cfg pvl] by (simp add: lot_size_def Let_def max_def not_less)

lemma sample_pip_value: "pip_value_per_lot eurusd_info = Inr 10"
  by (simp add: pip_value_per_lot_def eurusd_info_def float_eval)

text \<open>Evaluation goes from the inside out: the operands first, then the rounding.\<close>

lemma sample_lot: "lot_size default_config 10000 10 = Inr 2"
  apply (simp add: lot_size_def default_config_def)
  apply (simp add: float_eval)
  apply (simp add: py_round_def float_eval)
  done

lemma lot_example: "lot_size (cfg\<lparr>risk_percent := 1, sl_pips := 5\<rparr>) 10000 10 = Inr 2"
  apply (simp add: lot_size_def)
  apply (simp add: float_eval)
  apply (simp add: py_round_def float_eval)
  done

lemma py_round_samples: "py_round 70 2 = 70" "py_round 10 2 = 10"
  by (simp_all add: py_round_def float_eval)

text \<open>
  Claim C5. With a positive stop-loss distance and a positive pip value per lot, the lot
  is \<open>round(balance * (risk_percent / 100) / (sl_pips * pip_value_per_lot), 2)\<close> when
  that is at least 0.01, and 0.01 otherwise; a balance of 10000 at 1 percent risk, 5 pips
  and a pip value of 10 gives a lot of 2.00. The quotient is the float the code
  computes, each operation rounded to binary64; its rounding to two decimals is the
  float nearest to \<open>k / 100\<close>, where \<open>k\<close> hundredths are nearest to the quotient, a
  tie going to the even \<open>k\<close>; \<open>0.01\<close> is the float of that literal.
\<close>

theorem lot_size_formula:
  "(0 < sl_pips cfg \<and> 0 < pvl \<longrightarrow>
      (\<exists>k. nearest_hundredth
              (double (double (bal * double (risk_percent cfg / 100)) /
                 double (double (of_int (sl_pips cfg)) * pvl))) k \<and>
           lot_size cfg bal pvl =
             Inr (if double 0.01 \<le> double (of_int k / 100) then double (of_int k / 100)
                  else double 0.01))) \<and>
   lot_size (cfg\<lparr>risk_percent := 1, sl_pips := 5\<rparr>) 10000 10 = Inr 2"
proof -
  let ?q = "double (double (bal * double (risk_percent cfg / 100)) /
                 double (double (of_int (sl_pips cfg)) * pvl))"
  have "\<exists>k. nearest_hundredth ?q k \<and>
           lot_size cfg bal pvl =
             Inr (if double 0.01 \<le> double (of_int k / 100) then double (of_int k / 100)
                  else double 0.01)"
    if "0 < sl_pips cfg" "0 < pvl"
  proof -
    have ne: "of_int (sl_pips cfg) * pvl \<noteq> 0" using that by simp
    have "lot_size cfg bal pvl =
        Inr (if double 0.01 \<le> double (of_int (round_half_even (?q * 100)) / 100)
             then double (of_int (round_half_even (?q * 100)) / 100) else double 0.01)"
      unfolding lot_size_Inr [OF ne] by (simp add: py_round_def max_def)
    then show ?thesis using nearest_hundredth_rhe [of ?q] by blast
  qed
  then show ?thesis using lot_example by blast
qed

theorem lot_size_formula_witness:
  "lot_size default_config 3075 10 = Inr (double 0.61) \<and>
   lot_size default_config 125 10 = Inr (double 0.03) \<and>
   lot_size default_config 625 10 = Inr (double 0.12) \<and>
   lot_size default_config 75 10 = Inr (double 0.01) \<and>
   double 0.61 = 5494391545392005 / 9007199254740992 \<and>
   double 0.03 = 1080863910568919 / 36028797018963968 \<and>
   double 0.12 = 1080863910568919 / 9007199254740992 \<and>
   double 0.01 = 5764607523034235 / 576460752303423488 \<and>
   (\<exists>k. nearest_hundredth (double (double (3075 * double (1 / 100)) / double (double 5 * 10))) k \<and>
      lot_size default_config 3075 10 =
        Inr (if double 0.01 \<le> double (of_int k / 100) then double (of_int k / 100)
             else double 0.01)) \<and>
   nearest_hundredth (double (double (3075 * double (1 / 100)) / double (double 5 * 10))) 61 \<and>
   nearest_hundredth (double (double (125 * double (1 / 100)) / double (double 5 * 10))) 3 \<and>
   nearest_hundredth (double (double (625 * double (1 / 100)) / double (double 5 * 10))) 12 \<and>
   nearest_hundredth (double (double (75 * double (1 / 100)) / double (double 5 * 10))) 1"
proof -
  have h: "0 < sl_pips default_config" "(0::real) < 10" by (simp_all add: default_config_def)
  have c: "risk_percent default_config / 100 = 1 / 100" "sl_pips default_config = 5"
    by (simp_all add: default_config_def)
  have v: "lot_size default_config 3075 10 = Inr (double 0.61)"
    "lot_size default_config 125 10 = Inr (double 0.03)"
    "lot_size default_config 625 10 = Inr (double 0.12)"
    "lot_size default_config 75 10 = Inr (double 0.01)"
       apply (simp_all add: lot_size_def default_config_def)
       apply (simp_all add: float_eval)
       apply (simp_all add: py_round_def float_eval)
    done
  have d: "double 0.61 = 5494391545392005 / 9007199254740992"
    "double 0.03 = 1080863910568919 / 36028797018963968"
    "double 0.12 = 1080863910568919 / 9007199254740992"
    "double 0.01 = 5764607523034235 / 576460752303423488"
    by (simp_all add: float_eval)
  have n: "nearest_hundredth (double (double (3075 * double (1 / 100)) / double (double 5 * 10))) 61"
    "nearest_hundredth (double (double (125 * double (1 / 100)) / double (double 5 * 10))) 3"
    "nearest_hundredth (double (double (625 * double (1 / 100)) / double (double 5 * 10))) 12"
    "nearest_hundredth (double (double (75 * double (1 / 100)) / double (double 5 * 10))) 1"
    by (simp_all add: nearest_hundredth_def float_eval)
  from lot_size_formula [of default_config 10 3075] h
  have "\<exists>k. nearest_hundredth (double (double (3075 * double (1 / 100)) / double (double 5 * 10))) k \<and>
      lot_size default_config 3075 10 =
        Inr (if double 0.01 \<le> double (of_int k / 100) then double (of_int k / 100)
             else double 0.01)"
    by (simp add: c)
  then show ?thesis using v d n by blast
qed

lemma lot_size_sl_mono:
  assumes "0 < sl_pips cfg" "sl_pips cfg \<le> sl'" "0 < pvl"
  shows "\<exists>l l'. lot_size cfg bal pvl = Inr l \<and>
           lot_size (cfg\<lparr>sl_pips := sl'\<rparr>) bal pvl = Inr l' \<and> l' \<le> l"
proof -
  define rm where "rm = double (bal * double (risk_percent cfg / 100))"
  define a where "a = double (double (of_int (sl_pips cfg)) * pvl)"
  define b where "b = double (double (of_int sl') * pvl)"
  have sa: "0 < double (real_of_int (sl_pips cfg))" using assms(1) by (intro double_pos) simp
  have "double (real_of_int (sl_pips cfg)) \<le> double (of_int sl')"
    using assms(2) by (intro double_mono) simp
  then have "double (of_int (sl_pips cfg)) * pvl \<le> double (of_int sl') * pvl"
    using assms(3) by (simp add: mult_right_mono)
  then have ab: "a \<le> b" unfolding a_def b_def by (rule double_mono)
  have "0 < double (real_of_int (sl_pips cfg)) * pvl" using sa assms(3) by (rule mult_pos_pos)
  then have "0 < a" unfolding a_def by (rule double_pos)
  then have pos: "0 < a" "0 < b" using ab by simp_all
  have "py_round (double (rm / b)) 2 \<le> max (double 0.01) (py_round (double (rm / a)) 2)"
  proof (cases "0 \<le> rm")
    case True
    then have "rm / b \<le> rm / a" using pos ab by (intro divide_left_mono) auto
    then have "double (rm / b) \<le> double (rm / a)" by (rule double_mono)
    then show ?thesis
      using py_round_mono [of "double (rm / b)" "double (rm / a)" 2] by simp
  next
    case False
    then have "rm / b \<le> 0" using pos by (simp add: divide_nonpos_pos)
    then have "double (rm / b) \<le> 0" using double_mono [of "rm / b" 0] by (simp add: double_0)
    then have "py_round (double (rm / b)) 2 \<le> 0" by (rule py_round_nonpos)
    moreover have "0 \<le> double 0.01" using double_hundredth_ge by simp
    ultimately show ?thesis by simp
  qed
  then have "max (double 0.01) (py_round (double (rm / b)) 2)
      \<le> max (double 0.01) (py_round (double (rm / a)) 2)" by simp
  moreover have "lot_size cfg bal pvl = Inr (max (double 0.01) (py_round (double (rm / a)) 2))"
  proof -
    have "of_int (sl_pips cfg) * pvl \<noteq> 0" using assms by simp
    from lot_size_Inr [OF this] show ?thesis unfolding rm_def a_def .
  qed
  moreover have "lot_size (cfg\<lparr>sl_pips := sl'\<rparr>) bal pvl =
      Inr (max (double 0.01) (py_round (double (rm / b)) 2))"
  proof -
    have "of_int (sl_pips (cfg\<lparr>sl_pips := sl'\<rparr>)) * pvl \<noteq> 0" using assms by simp
    from lot_size_Inr [OF this, of bal] show ?thesis unfolding rm_def b_def by simp
  qed
  ultimately show ?thesis by blast
qed

lemma lot_size_balance_mono:
  assumes "0 < sl_pips cfg" "0 < pvl" "0 \<le> risk_percent cfg" "bal \<le> bal'"
  shows "\<exists>l l'. lot_size cfg bal pvl = Inr l \<and> lot_size cfg bal' pvl = Inr l' \<and> l \<le> l'"
proof -
  define a where "a = double (double (of_int (sl_pips cfg)) * pvl)"
  define c where "c = double (risk_percent cfg / 100)"
  have "0 < double (real_of_int (sl_pips cfg))" using assms(1) by (intro double_pos) simp
  then have "0 < double (real_of_int (sl_pips cfg)) * pvl" using assms(2) by (rule mult_pos_pos)
  then have pos: "0 < a" unfolding a_def by (rule double_pos)
  have "0 \<le> c" unfolding c_def using double_mono [of 0 "risk_percent cfg / 100"] assms(3)
    by (simp add: double_0)
  then have "bal * c \<le> bal' * c" using assms(4) by (intro mult_right_mono)
  then have "double (bal * c) \<le> double (bal' * c)" by (rule double_mono)
  then have "double (bal * c) / a \<le> double (bal' * c) / a"
    using pos by (intro divide_right_mono) auto
  then have "double (double (bal * c) / a) \<le> double (double (bal' * c) / a)"
    by (rule double_mono)
  then have "py_round (double (double (bal * c) / a)) 2
      \<le> py_round (double (double (bal' * c) / a)) 2"
    by (rule py_round_mono)
  then have "max (double 0.01) (py_round (double (double (bal * c) / a)) 2)
      \<le> max (double 0.01) (py_round (double (double (bal' * c) / a)) 2)"
    by simp
  moreover have ne: "of_int (sl_pips cfg) * pvl \<noteq> 0" using assms by simp
  ultimately show ?thesis
    using lot_size_Inr [OF ne, of bal] lot_size_Inr [OF ne, of bal'] unfolding a_def c_def
    by blast
qed

text \<open>
  Claim C8. With the other inputs fixed, the lot does not grow when the stop-loss
  distance grows and does not shrink when the balance grows, and it is never below
  0.01, also when the risk money is 0. The stop-loss distance and the pip value per lot
  are positive and the risk percent is not negative, as for configured values and real
  symbols; a zero divisor raises before any lot exists.
\<close>

theorem lot_size_monotone:
  "(0 < sl_pips cfg \<and> sl_pips cfg \<le> sl' \<and> 0 < pvl \<longrightarrow>
      (\<exists>l l'. lot_size cfg bal pvl = Inr l \<and>
         lot_size (cfg\<lparr>sl_pips := sl'\<rparr>) bal pvl = Inr l' \<and> l' \<le> l)) \<and>
   (0 < sl_pips cfg \<and> 0 < pvl \<and> 0 \<le> risk_percent cfg \<and> bal \<le> bal' \<longrightarrow>
      (\<exists>l l'. lot_size cfg bal pvl = Inr l \<and> lot_size cfg bal' pvl = Inr l' \<and> l \<le> l')) \<and>
   (of_int (sl_pips cfg) * pvl \<noteq> 0 \<longrightarrow> (\<exists>l. lot_size cfg bal pvl = Inr l \<and> 0.01 \<le> l)) \<and>
   (of_int (sl_pips cfg) * pvl = 0 \<longrightarrow> lot_size cfg bal pvl = Inl ZeroDivisionError)"
proof -
  have "\<exists>l. lot_size cfg bal pvl = Inr l \<and> 0.01 \<le> l" if "of_int (sl_pips cfg) * pvl \<noteq> 0"
  proof -
    have "(0.01::real) \<le> double 0.01" using double_hundredth_ge by simp
    then have "0.01 \<le> max (double 0.01) x" for x by simp
    then show ?thesis using lot_size_Inr [OF that, of bal] by blast
  qed
  moreover have "lot_size cfg bal pvl = Inl ZeroDivisionError"
    if "of_int (sl_pips cfg) * pvl = 0"
    using that divisor_eq_0_iff [of cfg pvl] unfolding lot_size_def Let_def by simp
  ultimately show ?thesis
    using lot_size_sl_mono [of cfg sl' pvl bal] lot_size_balance_mono [of cfg pvl bal bal']
    by blast
qed

theorem lot_size_monotone_witness:
  "lot_size default_config 10000 10 = Inr 2 \<and>
   lot_size (default_config\<lparr>sl_pips := 8\<rparr>) 10000 10 = Inr 1.25 \<and>
   lot_size default_config 20000 10 = Inr 4 \<and>
   lot_size default_config 0 10 = Inr (double 0.01) \<and>
   lot_size default_config 10000 0 = Inl ZeroDivisionError \<and>
   (\<exists>l l'. lot_size default_config 10000 10 = Inr l \<and>
      lot_size (default_config\<lparr>sl_pips := 8\<rparr>) 10000 10 = Inr l' \<and> l' \<le> l) \<and>
   (\<exists>l l'. lot_size default_config 10000 10 = Inr l \<and>
      lot_size default_config 20000 10 = Inr l' \<and> l \<le> l') \<and>
   (\<exists>l. lot_size default_config 0 10 = Inr l \<and> 0.01 \<le> l)"
proof -
  have ex: "lot_size default_config 10000 10 = Inr 2"
    "lot_size (default_config\<lparr>sl_pips := 8\<rparr>) 10000 10 = Inr 1.25"
    "lot_size default_config 20000 10 = Inr 4"
    "lot_size default_config 0 10 = Inr (double 0.01)"
       apply (simp_all add: lot_size_def default_config_def)
       apply (simp_all add: float_eval)
       apply (simp_all add: py_round_def float_eval)
    done
  have h: "0 < sl_pips default_config" "sl_pips default_config \<le> 8" "(0::real) < 10"
    "0 \<le> risk_percent default_config" "(10000::real) \<le> 20000"
    "of_int (sl_pips default_config) * (10::real) \<noteq> 0"
    "of_int (sl_pips default_config) * (0::real) = 0"
    by (simp_all add: default_config_def)
  show ?thesis
    using ex h lot_size_monotone [of default_config 8 10 10000 20000]
      lot_size_monotone [of default_config 8 10 0 0]
      lot_size_monotone [of default_config 8 0 10000 10000]
    by simp
qed

section \<open>The latest row of the frame\<close>

lemma length_diff_from: "length (diff_from p xs) = length xs"
  by (induction xs arbitrary: p) auto

lemma length_diff: "length (diff xs) = length xs"
  by (cases xs) (auto simp: length_diff_from)

lemma length_rolling_mean: "length (rolling_mean w xs) = length xs"
  by (simp add: rolling_mean_def)

lemma last_rolling_mean: "xs \<noteq> [] \<Longrightarrow> last (rolling_mean w xs) = window_mean w xs"
  by (simp add: rolling_mean_def last_map)

lemma length_gain: "length (gain cfg rates) = length rates"
  by (simp add: gain_def length_rolling_mean where_gt0_def length_diff df_close_def)

lemma length_loss: "length (loss cfg rates) = length rates"
  by (simp add: loss_def length_rolling_mean where_lt0_def length_diff df_close_def)

lemma last_gain:
  "rates \<noteq> [] \<Longrightarrow>
   last (gain cfg rates) = window_mean (rsi_period cfg) (where_gt0 (diff (df_close rates)))"
proof -
  assume "rates \<noteq> []"
  then have "where_gt0 (diff (df_close rates)) \<noteq> []"
    using length_diff [of "df_close rates"] by (auto simp: where_gt0_def df_close_def)
  then show ?thesis by (simp add: gain_def last_rolling_mean)
qed

lemma last_loss:
  "rates \<noteq> [] \<Longrightarrow>
   last (loss cfg rates) =
     fl_neg (window_mean (rsi_period cfg) (where_lt0 (diff (df_close rates))))"
proof -
  assume "rates \<noteq> []"
  then have ne: "where_lt0 (diff (df_close rates)) \<noteq> []"
    using length_diff [of "df_close rates"] by (auto simp: where_lt0_def df_close_def)
  then have "rolling_mean (rsi_period cfg) (where_lt0 (diff (df_close rates))) \<noteq> []"
    using length_rolling_mean [of "rsi_period cfg" "where_lt0 (diff (df_close rates))"] by auto
  then show ?thesis using ne by (simp add: loss_def last_map last_rolling_mean)
qed

lemma last_map2:
  "xs \<noteq> [] \<Longrightarrow> length xs = length ys \<Longrightarrow> last (map2 f xs ys) = f (last xs) (last ys)"
  by (cases ys) (auto simp: last_map last_zip)

lemma last_rsi:
  assumes "rates \<noteq> []"
  shows "last (df_rsi cfg rates) = rsi_of_rs (fl_div (last (gain cfg rates)) (last (loss cfg rates)))"
proof -
  have g: "gain cfg rates \<noteq> []" using assms length_gain [of cfg rates] by auto
  have "length (gain cfg rates) = length (loss cfg rates)"
    by (simp add: length_gain length_loss)
  with g have "last (rs cfg rates) = fl_div (last (gain cfg rates)) (last (loss cfg rates))"
    unfolding rs_def by (rule last_map2)
  moreover have "length (rs cfg rates) = length rates"
    by (simp add: rs_def length_gain length_loss)
  then have "rs cfg rates \<noteq> []" using assms by auto
  ultimately show ?thesis by (simp add: df_rsi_def last_map)
qed

lemma latest_Nil: "latest cfg [] = Inl IndexError"
  by (simp add: latest_def iloc_last_def df_close_def)

lemma latest_Inr:
  assumes "rates \<noteq> []"
  shows "latest cfg rates =
     Inr \<lparr>close_price = Fin (bar_close (last rates)),
          sma = window_mean (sma_period cfg) (df_close rates),
          rsi = rsi_of_rs (fl_div (last (gain cfg rates)) (last (loss cfg rates)))\<rparr>"
proof -
  have c: "df_close rates \<noteq> []" using assms by (simp add: df_close_def)
  have len: "length (df_sma cfg rates) = length rates" "length (df_rsi cfg rates) = length rates"
    "length (df_close rates) = length rates"
    by (simp_all add: df_sma_def df_rsi_def rs_def length_rolling_mean length_gain length_loss df_close_def)
  have s: "df_sma cfg rates \<noteq> []" "df_rsi cfg rates \<noteq> []" using assms len by auto
  have z: "zip (df_sma cfg rates) (df_rsi cfg rates) \<noteq> []"
    using s by (cases "df_sma cfg rates"; cases "df_rsi cfg rates") auto
  have "last (zip (df_close rates) (zip (df_sma cfg rates) (df_rsi cfg rates)))
      = (last (df_close rates), last (df_sma cfg rates), last (df_rsi cfg rates))"
    using c s z len by (simp add: last_zip)
  moreover have "zip (df_close rates) (zip (df_sma cfg rates) (df_rsi cfg rates)) \<noteq> []"
    using c z by (cases "df_close rates"; cases "zip (df_sma cfg rates) (df_rsi cfg rates)") auto
  moreover have "last (df_close rates) = Fin (bar_close (last rates))"
    using assms by (simp add: df_close_def last_map)
  moreover have "last (df_sma cfg rates) = window_mean (sma_period cfg) (df_close rates)"
    using c by (simp add: df_sma_def last_rolling_mean)
  ultimately show ?thesis using last_rsi [OF assms, of cfg] by (simp add: latest_def iloc_last_def)
qed

section \<open>The sample data, evaluated\<close>

lemma replicate_35: "replicate 35 x = [x,x,x,x,x,x,x,x,x,x,x,x,x,x,x,x,x,x,x,x,x,x,x,x,x,x,x,x,x,x,x,x,x,x,x]"
  by (simp add: numeral_eq_Suc)

lemmas fl_eval = window_mean_def where_gt0_def where_lt0_def fl_sub_def fl_gt_def fl_lt_def
        fl_div_def rsi_of_rs_def fin_of_def zero_of_def inf_of_def df_close_def bar_at_def

lemma pullback_latest:
  "latest default_config pullback_rates = Inr \<lparr>close_price = Fin 1.1188, sma = Fin 1.105822, rsi = Fin (50 / 7)\<rparr>"
proof -
  have ne: "pullback_rates \<noteq> []" by (simp add: pullback_rates_def)
  show ?thesis
    unfolding latest_Inr [OF ne] last_gain [OF ne] last_loss [OF ne]
    by (simp add: pullback_rates_def default_config_def replicate_35 fl_eval)
qed


lemma replicate_50:
  "replicate 50 x = replicate 35 x @ [x,x,x,x,x,x,x,x,x,x,x,x,x,x,x]"
  by (simp add: replicate_35 numeral_eq_Suc)

lemma flat_latest:
  "latest default_config flat_rates = Inr \<lparr>close_price = Fin 1.1, sma = Fin 1.1, rsi = NaN\<rparr>"
proof -
  have ne: "flat_rates \<noteq> []" by (simp add: flat_rates_def replicate_50)
  show ?thesis
    unfolding latest_Inr [OF ne] last_gain [OF ne] last_loss [OF ne]
    by (simp add: flat_rates_def default_config_def replicate_50 replicate_35 fl_eval)
qed

lemma flat_averages:
  "last (gain default_config flat_rates) = Fin 0" "last (loss default_config flat_rates) = NegZero"
proof -
  have ne: "flat_rates \<noteq> []" by (simp add: flat_rates_def replicate_50)
  show "last (gain default_config flat_rates) = Fin 0"
    "last (loss default_config flat_rates) = NegZero"
    unfolding last_gain [OF ne] last_loss [OF ne]
    by (simp_all add: flat_rates_def default_config_def replicate_50 replicate_35 fl_eval)
qed

lemma rally_latest:
  "latest default_config rally_rates =
     Inr \<lparr>close_price = Fin 1.1015, sma = Fin 1.10024, rsi = Fin 100\<rparr>"
proof -
  have ne: "rally_rates \<noteq> []" by (simp add: rally_rates_def)
  show ?thesis
    unfolding latest_Inr [OF ne] last_gain [OF ne] last_loss [OF ne]
    by (simp add: rally_rates_def default_config_def replicate_35 fl_eval)
qed

lemma rally_averages:
  "last (gain default_config rally_rates) = Fin (1 / 10000)"
  "last (loss default_config rally_rates) = NegZero"
proof -
  have ne: "rally_rates \<noteq> []" by (simp add: rally_rates_def)
  show "last (gain default_config rally_rates) = Fin (1 / 10000)"
    "last (loss default_config rally_rates) = NegZero"
    unfolding last_gain [OF ne] last_loss [OF ne]
    by (simp_all add: rally_rates_def default_config_def replicate_35 fl_eval)
qed

lemma short_latest:
  "latest default_config short_rates = Inr \<lparr>close_price = Fin 1.102, sma = NaN, rsi = NaN\<rparr>"
proof -
  have ne: "short_rates \<noteq> []" by (simp add: short_rates_def)
  show ?thesis
    unfolding latest_Inr [OF ne] last_gain [OF ne] last_loss [OF ne]
    by (simp add: short_rates_def default_config_def fl_eval)
qed

section \<open>Iterations that send no order\<close>

lemma orders_sent_append: "orders_sent (xs @ ys) = orders_sent xs @ orders_sent ys"
  by (induction xs rule: orders_sent.induct) auto

lemma orders_daily_reset: "orders_sent (fst (daily_reset cfg s e)) = []"
  by (simp add: daily_reset_def)

lemma check_and_place_none:
  "\<not> should_buy row \<Longrightarrow> \<not> should_sell row \<Longrightarrow>
   check_and_place cfg e lot row pt tick = ([Print_no_trade], None)"
  by (simp add: check_and_place_def)

lemma orders_size_and_trade_none:
  "\<not> should_buy row \<Longrightarrow> \<not> should_sell row \<Longrightarrow>
   orders_sent (fst (size_and_trade cfg e account row info tick)) = []"
  by (auto simp: size_and_trade_def check_and_place_none split: sum.splits)

lemma orders_trade_step_none:
  assumes "copy_rates_from_pos e = Some rates" "latest cfg rates = Inr row"
    "\<not> should_buy row" "\<not> should_sell row"
  shows "orders_sent (fst (trade_step cfg e)) = []"
  using assms orders_size_and_trade_none [OF assms(3,4), of cfg e]
  by (auto simp: trade_step_def split_beta split: option.splits)

lemma orders_iteration_none:
  assumes "copy_rates_from_pos e = Some rates" "latest cfg rates = Inr row"
    "\<not> should_buy row" "\<not> should_sell row"
  shows "orders_sent (fst (iteration cfg s e)) = []"
  using orders_trade_step_none [OF assms] orders_daily_reset [of cfg s e]
  by (auto simp: iteration_def orders_sent_append Let_def split_beta split: option.splits)

section \<open>Undefined indicators\<close>

lemma sma_short:
  "length rates < sma_period cfg \<Longrightarrow> window_mean (sma_period cfg) (df_close rates) = NaN"
  by (simp add: window_mean_def df_close_def)

lemma diff_from_replicate:
  "diff_from (Fin c) (replicate n (Fin c)) = replicate n (Fin 0)"
  by (induction n) (auto simp: fl_sub_def)

lemma where_flat:
  "where_gt0 (NaN # replicate n (Fin 0)) = replicate (Suc n) (Fin 0)"
  "where_lt0 (NaN # replicate n (Fin 0)) = replicate (Suc n) (Fin 0)"
  by (simp_all add: where_gt0_def where_lt0_def fl_gt_def fl_lt_def)

lemma window_mean_zeros:
  "0 < w \<Longrightarrow> w \<le> m \<Longrightarrow> window_mean w (replicate m (Fin 0)) = Fin 0"
  by (simp add: window_mean_def list_all_iff sum_list_replicate)

lemma df_close_flat:
  "\<forall>b\<in>set rates. bar_close b = c \<Longrightarrow> df_close rates = replicate (length rates) (Fin c)"
  by (induction rates) (auto simp: df_close_def)

lemma rsi_flat:
  assumes "rates \<noteq> []" "0 < rsi_period cfg" "rsi_period cfg \<le> length rates"
    "\<forall>b\<in>set rates. bar_close b = c"
  shows "rsi_of_rs (fl_div (last (gain cfg rates)) (last (loss cfg rates))) = NaN"
proof -
  obtain n where n: "length rates = Suc n" using assms(1) by (cases rates) auto
  have d: "diff (df_close rates) = NaN # replicate n (Fin 0)"
    using df_close_flat [OF assms(4)] n by (simp add: diff_from_replicate)
  have w: "window_mean (rsi_period cfg) (replicate (Suc n) (Fin 0)) = Fin 0"
    using assms(2,3) n by (intro window_mean_zeros) auto
  have "last (gain cfg rates) = Fin 0" "last (loss cfg rates) = NegZero"
    using w by (simp_all add: last_gain [OF assms(1)] last_loss [OF assms(1)] d where_flat)
  then show ?thesis by (simp add: rsi_of_rs_def fl_div_def fl_sub_def)
qed

text \<open>
  Claim C10. When the SMA or the RSI of the latest bar is not-a-number, neither the BUY
  nor the SELL condition holds: the decision step only prints that no condition is met,
  and the iteration sends no order. This is the case when fewer than \<open>sma_period\<close> bars
  exist (SMA), and when all closes are equal, so that average gain and average loss are
  both zero (RSI).
\<close>

theorem undefined_indicator_no_order:
  "(sma row = NaN \<or> rsi row = NaN \<longrightarrow>
      \<not> should_buy row \<and> \<not> should_sell row \<and>
      check_and_place cfg e lot row pt tick = ([Print_no_trade], None)) \<and>
   (copy_rates_from_pos e = Some rates \<and> latest cfg rates = Inr row \<and>
    (sma row = NaN \<or> rsi row = NaN) \<longrightarrow> orders_sent (fst (iteration cfg s e)) = []) \<and>
   (rates \<noteq> [] \<and> length rates < sma_period cfg \<longrightarrow>
      (\<exists>r. latest cfg rates = Inr r \<and> sma r = NaN)) \<and>
   (rates \<noteq> [] \<and> 0 < rsi_period cfg \<and> rsi_period cfg \<le> length rates \<and>
    (\<forall>b\<in>set rates. bar_close b = c) \<longrightarrow> (\<exists>r. latest cfg rates = Inr r \<and> rsi r = NaN))"
proof -
  have a: "\<not> should_buy row \<and> \<not> should_sell row \<and>
      check_and_place cfg e lot row pt tick = ([Print_no_trade], None)"
    if "sma row = NaN \<or> rsi row = NaN"
    using nan_no_signal [OF that] by (simp add: check_and_place_none)
  have b: "orders_sent (fst (iteration cfg s e)) = []"
    if "copy_rates_from_pos e = Some rates" "latest cfg rates = Inr row"
      "sma row = NaN \<or> rsi row = NaN"
    using that nan_no_signal [OF that(3)] orders_iteration_none by blast
  have c: "\<exists>r. latest cfg rates = Inr r \<and> sma r = NaN"
    if "rates \<noteq> []" "length rates < sma_period cfg"
    using latest_Inr [OF that(1), of cfg] sma_short [OF that(2)] by simp
  have d: "\<exists>r. latest cfg rates = Inr r \<and> rsi r = NaN"
    if "rates \<noteq> []" "0 < rsi_period cfg" "rsi_period cfg \<le> length rates"
      "\<forall>b\<in>set rates. bar_close b = c"
    using latest_Inr [OF that(1), of cfg] rsi_flat [OF that] by simp
  show ?thesis using a b c d by blast
qed

theorem undefined_indicator_no_order_witness:
  "latest default_config short_rates = Inr \<lparr>close_price = Fin 1.102, sma = NaN, rsi = NaN\<rparr> \<and>
   \<not> should_buy \<lparr>close_price = Fin 1.102, sma = NaN, rsi = NaN\<rparr> \<and>
   \<not> should_sell \<lparr>close_price = Fin 1.102, sma = NaN, rsi = NaN\<rparr> \<and>
   orders_sent (fst (iteration default_config
      \<lparr>daily_realized_loss = 0, last_reset_date = 100\<rparr> sample_env)) = [] \<and>
   (\<exists>r. latest default_config short_rates = Inr r \<and> sma r = NaN) \<and>
   (\<exists>r. latest default_config flat_rates = Inr r \<and> rsi r = NaN)"
proof -
  let ?row = "\<lparr>close_price = Fin 1.102, sma = NaN, rsi = NaN\<rparr>"
  let ?s = "\<lparr>daily_realized_loss = 0, last_reset_date = 100\<rparr>"
  have h1: "sma ?row = NaN \<or> rsi ?row = NaN" by simp
  have h2: "copy_rates_from_pos sample_env = Some short_rates" by (simp add: sample_env_def)
  have h3: "short_rates \<noteq> []" "length short_rates < sma_period default_config"
    by (simp_all add: short_rates_def default_config_def)
  have h4: "flat_rates \<noteq> []" "0 < rsi_period default_config"
    "rsi_period default_config \<le> length flat_rates" "\<forall>b\<in>set flat_rates. bar_close b = 11 / 10"
    by (simp_all add: flat_rates_def default_config_def bar_at_def)
  show ?thesis
    using undefined_indicator_no_order
      [of ?row default_config sample_env 2 "1 / 100000" eurusd_tick short_rates ?s 0]
      undefined_indicator_no_order
      [of ?row default_config sample_env 2 "1 / 100000" eurusd_tick flat_rates ?s "11 / 10"]
      h1 h2 h3 h4 short_latest
    by simp
qed

section \<open>Order construction\<close>







section \<open>The loss gate and the fetch failures\<close>

lemma iteration_gate:
  "max_loss_reached cfg (snd (daily_reset cfg s e)) \<Longrightarrow>
   iteration cfg s e =
     (fst (daily_reset cfg s e) @ [Print_max_loss_reached, Sleep (loop_interval_minutes cfg * 60)],
      Inr (snd (daily_reset cfg s e)))"
  by (simp add: iteration_def split_beta)

lemma iteration_abort:
  "\<not> max_loss_reached cfg (snd (daily_reset cfg s e)) \<Longrightarrow> trade_step cfg e = (evs, Some a) \<Longrightarrow>
   iteration cfg s e = (fst (daily_reset cfg s e) @ evs, Inl a)"
  by (simp add: iteration_def split_beta)

lemma iteration_complete:
  "\<not> max_loss_reached cfg (snd (daily_reset cfg s e)) \<Longrightarrow> trade_step cfg e = (evs, None) \<Longrightarrow>
   iteration cfg s e =
     (fst (daily_reset cfg s e) @ evs @
        [Call_history_deals_get, Print_daily_loss (py_round (update_daily_loss cfg e) 2),
         Sleep (loop_interval_minutes cfg * 60)],
      Inr ((snd (daily_reset cfg s e))\<lparr>daily_realized_loss := update_daily_loss cfg e\<rparr>))"
  by (simp add: iteration_def split_beta Let_def)

lemma trade_step_no_signal:
  assumes "account_info e = Some account" "copy_rates_from_pos e = Some rates"
    "latest cfg rates = Inr row" "symbol_info e = Some info" "symbol_info_tick e = Some tick"
    "pip_value_per_lot info = Inr pvl" "lot_size cfg (balance account) pvl = Inr lot"
    "\<not> should_buy row" "\<not> should_sell row"
  shows "trade_step cfg e =
     ([Call_account_info, Call_copy_rates_from_pos, Call_symbol_info, Call_symbol_info_tick,
       Print_no_trade], None)"
  using assms by (simp add: trade_step_def size_and_trade_def check_and_place_none)

lemma main_loop_break:
  "iteration cfg s e = (evs, Inl Break) \<Longrightarrow>
   main_loop cfg s (e # es) = ([evs @ [Call_shutdown]], Inl Break)"
  by simp

lemma main_loop_continue:
  "iteration cfg s e = (evs, Inr s') \<Longrightarrow>
   main_loop cfg s (e # es) = (evs # fst (main_loop cfg s' es), snd (main_loop cfg s' es))"
  by (simp add: split_beta)

text \<open>
  Claim C7. When the fetch of the account info, of the market data or of the symbol
  info and tick returns \<open>None\<close>, the loop ends at once: the failed call was made once,
  later iterations do not run and the terminal is shut down. An iteration stopped by
  the loss gate and an iteration without a signal end in the sleep and the loop goes on
  with the next iteration.
\<close>

theorem fetch_failure_breaks:
  "(\<not> max_loss_reached cfg (snd (daily_reset cfg s e)) \<and> account_info e = None \<longrightarrow>
      main_loop cfg s (e # es) =
        ([fst (daily_reset cfg s e) @
          [Call_account_info, Print_failed_account_info, Call_shutdown]], Inl Break)) \<and>
   (\<not> max_loss_reached cfg (snd (daily_reset cfg s e)) \<and> account_info e = Some account \<and>
    copy_rates_from_pos e = None \<longrightarrow>
      main_loop cfg s (e # es) =
        ([fst (daily_reset cfg s e) @
          [Call_account_info, Call_copy_rates_from_pos, Print_failed_market_data,
           Call_shutdown]], Inl Break)) \<and>
   (\<not> max_loss_reached cfg (snd (daily_reset cfg s e)) \<and> account_info e = Some account \<and>
    copy_rates_from_pos e = Some rates \<and> rates \<noteq> [] \<and>
    (symbol_info e = None \<or> symbol_info_tick e = None) \<longrightarrow>
      main_loop cfg s (e # es) =
        ([fst (daily_reset cfg s e) @
          [Call_account_info, Call_copy_rates_from_pos, Call_symbol_info,
           Call_symbol_info_tick, Print_failed_symbol_info, Call_shutdown]], Inl Break)) \<and>
   (max_loss_reached cfg (snd (daily_reset cfg s e)) \<longrightarrow>
      (\<exists>evs s'. iteration cfg s e = (evs, Inr s') \<and>
         last evs = Sleep (loop_interval_minutes cfg * 60) \<and>
         main_loop cfg s (e # es) =
           (evs # fst (main_loop cfg s' es), snd (main_loop cfg s' es)))) \<and>
   (\<not> max_loss_reached cfg (snd (daily_reset cfg s e)) \<and> account_info e = Some account \<and>
    copy_rates_from_pos e = Some rates \<and> latest cfg rates = Inr row \<and>
    symbol_info e = Some info \<and> symbol_info_tick e = Some tick \<and>
    pip_value_per_lot info = Inr pvl \<and> lot_size cfg (balance account) pvl = Inr lot \<and>
    \<not> should_buy row \<and> \<not> should_sell row \<longrightarrow>
      (\<exists>evs s'. iteration cfg s e = (evs, Inr s') \<and>
         last evs = Sleep (loop_interval_minutes cfg * 60) \<and>
         main_loop cfg s (e # es) =
           (evs # fst (main_loop cfg s' es), snd (main_loop cfg s' es))))"
proof -
  let ?open = "\<not> max_loss_reached cfg (snd (daily_reset cfg s e))"
  have a: "main_loop cfg s (e # es) =
        ([fst (daily_reset cfg s e) @
          [Call_account_info, Print_failed_account_info, Call_shutdown]], Inl Break)"
    if "?open" "account_info e = None"
  proof -
    have "trade_step cfg e = ([Call_account_info, Print_failed_account_info], Some Break)"
      using that(2) by (simp add: trade_step_def)
    from main_loop_break [OF iteration_abort [OF that(1) this]] show ?thesis by simp
  qed
  have b: "main_loop cfg s (e # es) =
        ([fst (daily_reset cfg s e) @
          [Call_account_info, Call_copy_rates_from_pos, Print_failed_market_data,
           Call_shutdown]], Inl Break)"
    if "?open" "account_info e = Some account" "copy_rates_from_pos e = None"
  proof -
    have "trade_step cfg e =
        ([Call_account_info, Call_copy_rates_from_pos, Print_failed_market_data], Some Break)"
      using that(2,3) by (simp add: trade_step_def)
    from main_loop_break [OF iteration_abort [OF that(1) this]] show ?thesis by simp
  qed
  have c: "main_loop cfg s (e # es) =
        ([fst (daily_reset cfg s e) @
          [Call_account_info, Call_copy_rates_from_pos, Call_symbol_info,
           Call_symbol_info_tick, Print_failed_symbol_info, Call_shutdown]], Inl Break)"
    if "?open" "account_info e = Some account" "copy_rates_from_pos e = Some rates"
      "rates \<noteq> []" "symbol_info e = None \<or> symbol_info_tick e = None"
  proof -
    have "trade_step cfg e =
        ([Call_account_info, Call_copy_rates_from_pos, Call_symbol_info,
          Call_symbol_info_tick, Print_failed_symbol_info], Some Break)"
      using that(2,3,5) latest_Inr [OF that(4), of cfg]
      by (auto simp: trade_step_def split: option.splits)
    from main_loop_break [OF iteration_abort [OF that(1) this]] show ?thesis by simp
  qed
  have d: "\<exists>evs s'. iteration cfg s e = (evs, Inr s') \<and>
         last evs = Sleep (loop_interval_minutes cfg * 60) \<and>
         main_loop cfg s (e # es) =
           (evs # fst (main_loop cfg s' es), snd (main_loop cfg s' es))"
    if "max_loss_reached cfg (snd (daily_reset cfg s e))"
    using iteration_gate [OF that] main_loop_continue [OF iteration_gate [OF that], of es]
    by simp
  have f: "\<exists>evs s'. iteration cfg s e = (evs, Inr s') \<and>
         last evs = Sleep (loop_interval_minutes cfg * 60) \<and>
         main_loop cfg s (e # es) =
           (evs # fst (main_loop cfg s' es), snd (main_loop cfg s' es))"
    if "?open" "account_info e = Some account" "copy_rates_from_pos e = Some rates"
      "latest cfg rates = Inr row" "symbol_info e = Some info" "symbol_info_tick e = Some tick"
      "pip_value_per_lot info = Inr pvl" "lot_size cfg (balance account) pvl = Inr lot"
      "\<not> should_buy row" "\<not> should_sell row"
  proof -
    note it = iteration_complete [OF that(1) trade_step_no_signal [OF that(2-10)]]
    show ?thesis using it main_loop_continue [OF it, of es] by simp
  qed
  show ?thesis using a b c d f by blast
qed

theorem fetch_failure_breaks_witness:
  "main_loop default_config \<lparr>daily_realized_loss = 0, last_reset_date = 100\<rparr>
     [sample_env\<lparr>account_info := None\<rparr>, sample_env] =
     ([[Call_account_info, Print_failed_account_info, Call_shutdown]], Inl Break) \<and>
   main_loop default_config \<lparr>daily_realized_loss = 0, last_reset_date = 100\<rparr>
     [sample_env\<lparr>copy_rates_from_pos := None\<rparr>, sample_env] =
     ([[Call_account_info, Call_copy_rates_from_pos, Print_failed_market_data,
        Call_shutdown]], Inl Break) \<and>
   main_loop default_config \<lparr>daily_realized_loss = 0, last_reset_date = 100\<rparr>
     [sample_env\<lparr>symbol_info_tick := None\<rparr>, sample_env] =
     ([[Call_account_info, Call_copy_rates_from_pos, Call_symbol_info, Call_symbol_info_tick,
        Print_failed_symbol_info, Call_shutdown]], Inl Break) \<and>
   (\<exists>evs s'. iteration default_config \<lparr>daily_realized_loss = 60, last_reset_date = 100\<rparr>
        sample_env = (evs, Inr s') \<and> last evs = Sleep 300) \<and>
   (\<exists>evs s'. iteration default_config \<lparr>daily_realized_loss = 0, last_reset_date = 100\<rparr>
        sample_env = (evs, Inr s') \<and> last evs = Sleep 300)"
proof -
  let ?s = "\<lparr>daily_realized_loss = 0, last_reset_date = 100\<rparr>"
  let ?s60 = "\<lparr>daily_realized_loss = 60, last_reset_date = 100\<rparr>"
  let ?row = "\<lparr>close_price = Fin 1.102, sma = NaN, rsi = NaN\<rparr>"
  let ?acc = "\<lparr>balance = 10000\<rparr>"
  have r: "daily_reset default_config ?s (sample_env\<lparr>account_info := None\<rparr>) = ([], ?s)"
    "daily_reset default_config ?s (sample_env\<lparr>copy_rates_from_pos := None\<rparr>) = ([], ?s)"
    "daily_reset default_config ?s (sample_env\<lparr>symbol_info_tick := None\<rparr>) = ([], ?s)"
    "daily_reset default_config ?s sample_env = ([], ?s)"
    "daily_reset default_config ?s60 sample_env = ([], ?s60)"
    by (simp_all add: daily_reset_def reset_due_def sample_env_def)
  have g: "\<not> max_loss_reached default_config ?s" "max_loss_reached default_config ?s60"
    by (simp_all add: max_loss_reached_def default_config_def)
  have ne: "short_rates \<noteq> []" by (simp add: short_rates_def)
  have sig: "\<not> should_buy ?row" "\<not> should_sell ?row"
    by (simp_all add: should_buy_def should_sell_def fl_gt_def fl_lt_def)
  have lot: "pip_value_per_lot eurusd_info = Inr 10"
    "lot_size default_config (balance ?acc) 10 = Inr 2"
    by (simp_all add: sample_pip_value sample_lot)
  have iv: "loop_interval_minutes default_config * 60 = 300" by (simp add: default_config_def)
  have 1: "main_loop default_config ?s [sample_env\<lparr>account_info := None\<rparr>, sample_env] =
     ([[Call_account_info, Print_failed_account_info, Call_shutdown]], Inl Break)"
    using fetch_failure_breaks [of default_config ?s "sample_env\<lparr>account_info := None\<rparr>"
        "[sample_env]"] r g
    by simp
  have 2: "main_loop default_config ?s [sample_env\<lparr>copy_rates_from_pos := None\<rparr>, sample_env] =
     ([[Call_account_info, Call_copy_rates_from_pos, Print_failed_market_data,
        Call_shutdown]], Inl Break)"
    using fetch_failure_breaks [of default_config ?s "sample_env\<lparr>copy_rates_from_pos := None\<rparr>"
        "[sample_env]" ?acc] r g
    by (simp add: sample_env_def)
  have 3: "main_loop default_config ?s [sample_env\<lparr>symbol_info_tick := None\<rparr>, sample_env] =
     ([[Call_account_info, Call_copy_rates_from_pos, Call_symbol_info, Call_symbol_info_tick,
        Print_failed_symbol_info, Call_shutdown]], Inl Break)"
    using fetch_failure_breaks [of default_config ?s "sample_env\<lparr>symbol_info_tick := None\<rparr>"
        "[sample_env]" ?acc short_rates] r g ne
    by (simp add: sample_env_def)
  have 4: "\<exists>evs s'. iteration default_config ?s60 sample_env = (evs, Inr s') \<and>
      last evs = Sleep 300"
    using fetch_failure_breaks [of default_config ?s60 sample_env "[]"] r g iv
    by auto
  have 5: "\<exists>evs s'. iteration default_config ?s sample_env = (evs, Inr s') \<and>
      last evs = Sleep 300"
    using fetch_failure_breaks [of default_config ?s sample_env "[]" ?acc short_rates ?row
        eurusd_info eurusd_tick 10 2] r g iv sig lot short_latest
    by (auto simp: sample_env_def)
  show ?thesis using 1 2 3 4 5 by blast
qed

section \<open>The loss gate and the recomputation\<close>

text \<open>
  Claim C1, as amended. When the accumulator, as the daily reset check left it, has
  reached \<open>daily_max_loss\<close>, the iteration makes no terminal call: it sends no order, it
  does not fetch the deal history and leaves the accumulator as it is, prints the limit
  message and sleeps. In particular an accumulator at or above the limit at the top of
  the loop stays unchanged when no reset is due.
\<close>

theorem loss_gate_skips:
  "(max_loss_reached cfg (snd (daily_reset cfg s e)) \<longrightarrow>
      iteration cfg s e =
        (fst (daily_reset cfg s e) @
           [Print_max_loss_reached, Sleep (loop_interval_minutes cfg * 60)],
         Inr (snd (daily_reset cfg s e))) \<and>
      orders_sent (fst (iteration cfg s e)) = [] \<and>
      Call_history_deals_get \<notin> set (fst (iteration cfg s e))) \<and>
   (daily_max_loss cfg \<le> daily_realized_loss s \<and> \<not> reset_due cfg s e \<longrightarrow>
      iteration cfg s e =
        ([Print_max_loss_reached, Sleep (loop_interval_minutes cfg * 60)], Inr s))"
proof -
  have a: "iteration cfg s e =
        (fst (daily_reset cfg s e) @
           [Print_max_loss_reached, Sleep (loop_interval_minutes cfg * 60)],
         Inr (snd (daily_reset cfg s e))) \<and>
      orders_sent (fst (iteration cfg s e)) = [] \<and>
      Call_history_deals_get \<notin> set (fst (iteration cfg s e))"
    if "max_loss_reached cfg (snd (daily_reset cfg s e))"
    unfolding iteration_gate [OF that] by (simp add: daily_reset_def)
  have b: "iteration cfg s e =
        ([Print_max_loss_reached, Sleep (loop_interval_minutes cfg * 60)], Inr s)"
    if "daily_max_loss cfg \<le> daily_realized_loss s" "\<not> reset_due cfg s e"
  proof -
    have r: "daily_reset cfg s e = ([], s)" using that(2) by (simp add: daily_reset_def)
    then have "max_loss_reached cfg (snd (daily_reset cfg s e))"
      using that(1) by (simp add: max_loss_reached_def)
    from iteration_gate [OF this] r show ?thesis by simp
  qed
  show ?thesis using a b by blast
qed

theorem loss_gate_skips_witness:
  "max_loss_reached default_config
     (snd (daily_reset default_config \<lparr>daily_realized_loss = 60, last_reset_date = 100\<rparr>
        sample_env)) \<and>
   iteration default_config \<lparr>daily_realized_loss = 60, last_reset_date = 100\<rparr> sample_env =
     ([Print_max_loss_reached, Sleep 300],
      Inr \<lparr>daily_realized_loss = 60, last_reset_date = 100\<rparr>) \<and>
   orders_sent (fst (iteration default_config
     \<lparr>daily_realized_loss = 60, last_reset_date = 100\<rparr> sample_env)) = []"
proof -
  let ?s = "\<lparr>daily_realized_loss = 60, last_reset_date = 100\<rparr>"
  have r: "\<not> reset_due default_config ?s sample_env"
    "daily_reset default_config ?s sample_env = ([], ?s)"
    by (simp_all add: daily_reset_def reset_due_def sample_env_def)
  have g: "max_loss_reached default_config ?s" "daily_max_loss default_config \<le> 60"
    "loop_interval_minutes default_config * 60 = 300"
    by (simp_all add: max_loss_reached_def default_config_def)
  show ?thesis using loss_gate_skips [of default_config ?s sample_env] r g by simp
qed

text \<open>
  The claim as written fails twice. With an accumulator of 60 against a limit of 50 and
  a deal history whose losses sum to 70, the iteration ends with the accumulator at 60
  and without a call for the history. And an accumulator of 60 at the top of the loop
  does not close the gate when the daily reset is due: the reset zeroes it first and the
  account is fetched.
\<close>

theorem loss_gate_recompute_counterexample:
  "update_daily_loss default_config sample_env = 70 \<and>
   iteration default_config \<lparr>daily_realized_loss = 60, last_reset_date = 100\<rparr> sample_env =
     ([Print_max_loss_reached, Sleep 300],
      Inr \<lparr>daily_realized_loss = 60, last_reset_date = 100\<rparr>) \<and>
   iteration default_config \<lparr>daily_realized_loss = 60, last_reset_date = 99\<rparr>
     (sample_env\<lparr>account_info := None\<rparr>) =
     ([Print_daily_loss_reset, Call_account_info, Print_failed_account_info], Inl Break)"
  by (simp add: update_daily_loss_def sample_env_def own_loss_def counts_deal_def
      default_config_def iteration_def daily_reset_def reset_due_def max_loss_reached_def
      trade_step_def)

section \<open>The daily reset\<close>

lemma trade_step_no_reset_print: "Print_daily_loss_reset \<notin> set (fst (trade_step cfg e))"
  by (auto simp: trade_step_def size_and_trade_def check_and_place_def place_trade_def
      Let_def split_beta split: option.splits sum.splits)

lemma reset_print_iff:
  "Print_daily_loss_reset \<in> set (fst (iteration cfg s e)) \<longleftrightarrow> reset_due cfg s e"
  using trade_step_no_reset_print [of cfg e]
  by (auto simp: iteration_def daily_reset_def split_beta Let_def split: option.splits)

lemma iteration_last_reset_date:
  "iteration cfg s e = (evs, Inr s') \<Longrightarrow>
   last_reset_date s' = (if reset_due cfg s e then today e else last_reset_date s)"
  by (auto simp: iteration_def daily_reset_def split_beta Let_def split: option.splits if_splits)

lemma resets_on_Cons:
  "resets_on d cfg s (e # es) =
     (if today e = d \<and> reset_due cfg s e then 1 else 0) +
     (case snd (iteration cfg s e) of Inr s' \<Rightarrow> resets_on d cfg s' es | Inl a \<Rightarrow> 0)"
proof (cases "iteration cfg s e")
  case (Pair evs out)
  have p: "Print_daily_loss_reset \<in> set evs \<longleftrightarrow> reset_due cfg s e"
    using reset_print_iff [of cfg s e] Pair by simp
  show ?thesis
  proof (cases out)
    case (Inl a)
    then show ?thesis using Pair p by (cases a) (auto simp: resets_on_def)
  next
    case (Inr s')
    then show ?thesis using Pair p by (auto simp: resets_on_def split_beta)
  qed
qed

lemma resets_on_none:
  "\<forall>e\<in>set es. today e \<noteq> d \<Longrightarrow> resets_on d cfg s es = 0"
proof (induction es arbitrary: s)
  case Nil
  then show ?case by (simp add: resets_on_def)
next
  case (Cons e es)
  then show ?case by (auto simp: resets_on_Cons split: sum.splits)
qed

lemma resets_on_after_reset:
  "last_reset_date s = d \<Longrightarrow> sorted (map today es) \<Longrightarrow> \<forall>e\<in>set es. d \<le> today e \<Longrightarrow>
   resets_on d cfg s es = 0"
proof (induction es arbitrary: s)
  case Nil
  then show ?case by (simp add: resets_on_def)
next
  case (Cons e es)
  show ?case
  proof (cases "today e = d")
    case True
    then have nd: "\<not> reset_due cfg s e" using Cons.prems(1) by (simp add: reset_due_def)
    have "resets_on d cfg s' es = 0" if "iteration cfg s e = (evs, Inr s')" for evs s'
    proof -
      have "last_reset_date s' = d"
        using iteration_last_reset_date [OF that] nd Cons.prems(1) by simp
      then show ?thesis using Cons.IH [of s'] Cons.prems(2,3) by simp
    qed
    then show ?thesis using nd
      by (cases "iteration cfg s e") (auto simp: resets_on_Cons split: sum.splits)
  next
    case False
    then have "\<forall>x\<in>set es. today x \<noteq> d" using Cons.prems(2,3) by fastforce
    then show ?thesis using False by (auto simp: resets_on_Cons resets_on_none split: sum.splits)
  qed
qed

lemma resets_on_le_1: "sorted (map today es) \<Longrightarrow> resets_on d cfg s es \<le> 1"
proof (induction es arbitrary: s)
  case Nil
  then show ?case by (simp add: resets_on_def)
next
  case (Cons e es)
  show ?case
  proof (cases "today e = d \<and> reset_due cfg s e")
    case True
    have "resets_on d cfg s' es = 0" if "iteration cfg s e = (evs, Inr s')" for evs s'
    proof -
      have "last_reset_date s' = d" using iteration_last_reset_date [OF that] True by simp
      then show ?thesis using resets_on_after_reset [of s' d es cfg] Cons.prems True by simp
    qed
    then show ?thesis using True
      by (cases "iteration cfg s e") (auto simp: resets_on_Cons split: sum.splits)
  next
    case False
    then show ?thesis using Cons.IH Cons.prems
      by (cases "iteration cfg s e") (auto simp: resets_on_Cons split: sum.splits)
  qed
qed

text \<open>
  Claim C4. The daily reset fires at most once per calendar day. An iteration zeroes
  the accumulator and moves \<open>last_reset_date\<close> to today exactly when today differs from
  \<open>last_reset_date\<close> and the hour has reached \<open>daily_loss_reset_hour\<close>; nothing else in
  the loop body changes \<open>last_reset_date\<close>, so the next iterations of that day do not
  reset again, and over a run whose dates do not go backwards the reset fires at most
  once on any day.
\<close>

theorem daily_reset_once:
  "(Print_daily_loss_reset \<in> set (fst (iteration cfg s e)) \<longleftrightarrow>
      today e \<noteq> last_reset_date s \<and> daily_loss_reset_hour cfg \<le> hour e) \<and>
   snd (daily_reset cfg s e) =
     (if today e \<noteq> last_reset_date s \<and> daily_loss_reset_hour cfg \<le> hour e
      then \<lparr>daily_realized_loss = 0, last_reset_date = today e\<rparr> else s) \<and>
   (iteration cfg s e = (evs, Inr s') \<longrightarrow>
      last_reset_date s' =
        (if today e \<noteq> last_reset_date s \<and> daily_loss_reset_hour cfg \<le> hour e
         then today e else last_reset_date s)) \<and>
   (iteration cfg s e = (evs, Inr s') \<and> Print_daily_loss_reset \<in> set evs \<and>
    today e' = today e \<longrightarrow> Print_daily_loss_reset \<notin> set (fst (iteration cfg s' e'))) \<and>
   (sorted (map today es) \<longrightarrow> resets_on d cfg s es \<le> 1)"
proof -
  have a: "Print_daily_loss_reset \<in> set (fst (iteration cfg s e)) \<longleftrightarrow>
      today e \<noteq> last_reset_date s \<and> daily_loss_reset_hour cfg \<le> hour e"
    by (simp add: reset_print_iff reset_due_def)
  have b: "snd (daily_reset cfg s e) =
     (if today e \<noteq> last_reset_date s \<and> daily_loss_reset_hour cfg \<le> hour e
      then \<lparr>daily_realized_loss = 0, last_reset_date = today e\<rparr> else s)"
    by (simp add: daily_reset_def reset_due_def)
  have c: "last_reset_date s' =
        (if today e \<noteq> last_reset_date s \<and> daily_loss_reset_hour cfg \<le> hour e
         then today e else last_reset_date s)"
    if "iteration cfg s e = (evs, Inr s')"
    using iteration_last_reset_date [OF that] by (simp add: reset_due_def)
  have d: "Print_daily_loss_reset \<notin> set (fst (iteration cfg s' e'))"
    if "iteration cfg s e = (evs, Inr s')" "Print_daily_loss_reset \<in> set evs"
      "today e' = today e"
  proof -
    have "reset_due cfg s e" using reset_print_iff [of cfg s e] that(1,2) by simp
    then have "last_reset_date s' = today e'"
      using iteration_last_reset_date [OF that(1)] that(3) by simp
    then show ?thesis by (simp add: reset_print_iff reset_due_def)
  qed
  show ?thesis using a b c d resets_on_le_1 [of es d cfg s] by blast
qed

theorem daily_reset_once_witness:
  "sorted (map today [sample_env, sample_env\<lparr>today := 101, hour := 0\<rparr>,
     sample_env\<lparr>today := 101, hour := 1\<rparr>]) \<and>
   iteration default_config \<lparr>daily_realized_loss = 60, last_reset_date = 100\<rparr>
     (sample_env\<lparr>today := 101, hour := 0\<rparr>) =
     ([Print_daily_loss_reset, Call_account_info, Call_copy_rates_from_pos, Call_symbol_info,
       Call_symbol_info_tick, Print_no_trade, Call_history_deals_get, Print_daily_loss 70,
       Sleep 300], Inr \<lparr>daily_realized_loss = 70, last_reset_date = 101\<rparr>) \<and>
   Print_daily_loss_reset \<notin> set (fst (iteration default_config
     \<lparr>daily_realized_loss = 70, last_reset_date = 101\<rparr>
     (sample_env\<lparr>today := 101, hour := 1\<rparr>))) \<and>
   resets_on 101 default_config \<lparr>daily_realized_loss = 60, last_reset_date = 100\<rparr>
     [sample_env, sample_env\<lparr>today := 101, hour := 0\<rparr>,
      sample_env\<lparr>today := 101, hour := 1\<rparr>] \<le> 1"
proof -
  let ?s = "\<lparr>daily_realized_loss = 60, last_reset_date = 100\<rparr>"
  let ?s' = "\<lparr>daily_realized_loss = 70, last_reset_date = 101\<rparr>"
  let ?e1 = "sample_env\<lparr>today := 101, hour := 0\<rparr>"
  let ?e2 = "sample_env\<lparr>today := 101, hour := 1\<rparr>"
  let ?evs = "[Print_daily_loss_reset, Call_account_info, Call_copy_rates_from_pos,
       Call_symbol_info, Call_symbol_info_tick, Print_no_trade, Call_history_deals_get,
       Print_daily_loss 70, Sleep 300]"
  have srt: "sorted (map today [sample_env, ?e1, ?e2])" by (simp add: sample_env_def)
  have it: "iteration default_config ?s ?e1 = (?evs, Inr ?s')"
    using short_latest sample_pip_value sample_lot py_round_samples
    by (simp add: iteration_def daily_reset_def reset_due_def max_loss_reached_def
        trade_step_def size_and_trade_def check_and_place_def should_buy_def should_sell_def
        fl_gt_def fl_lt_def update_daily_loss_def counts_deal_def sample_env_def
        own_loss_def default_config_def)
  have mem: "Print_daily_loss_reset \<in> set ?evs" "today ?e2 = today ?e1" by simp_all
  show ?thesis
    using srt it daily_reset_once [of default_config ?s ?e1 ?evs ?s' ?e2
        "[sample_env, ?e1, ?e2]" 101] mem
    by simp
qed

section \<open>The recomputed accumulator\<close>

lemma sum_losses_acc:
  "sum_losses cfg acc ds =
     acc + sum_list (map (\<lambda>d. \<bar>profit d\<bar>) (filter (\<lambda>d. counts_deal cfg d \<and> profit d < 0) ds))"
  by (induction ds arbitrary: acc) auto

lemma update_daily_loss_filter:
  "update_daily_loss cfg e =
     (case history_deals_get e of
        None \<Rightarrow> 0
      | Some ds \<Rightarrow>
          sum_list (map (\<lambda>d. \<bar>profit d\<bar>)
            (filter (\<lambda>d. counts_deal cfg d \<and> profit d < 0) ds)))"
  by (simp add: update_daily_loss_def sum_losses_acc split: option.splits)

lemma update_daily_loss_spec:
  assumes "history_deals_get e = Some ds"
    "\<forall>d\<in>set ds. counts_deal cfg d \<longleftrightarrow> magic d = magic_number cfg"
  shows "update_daily_loss cfg e = spec_daily_loss cfg ds"
proof -
  have "filter (\<lambda>d. counts_deal cfg d \<and> profit d < 0) ds
      = filter (\<lambda>d. magic d = magic_number cfg \<and> profit d < 0) ds"
    using assms(2) by (intro filter_cong) auto
  then show ?thesis using assms(1) by (simp add: update_daily_loss_filter spec_daily_loss_def)
qed

text \<open>
  Claim C2 says that a deal with another strategy tag contributes nothing to the
  recomputed accumulator. The condition in line 156 is \<open>a and b or c\<close>: a deal of type
  BUY counts whatever its magic number is. One losing BUY deal of another strategy, with
  a profit of -10, leaves the accumulator at 10 after the iteration, where the claim
  has 0.
\<close>

theorem foreign_buy_deal_counted:
  "magic foreign_buy_loss \<noteq> magic_number default_config \<and>
   spec_daily_loss default_config [foreign_buy_loss] = 0 \<and>
   update_daily_loss default_config
     (sample_env\<lparr>history_deals_get := Some [foreign_buy_loss]\<rparr>) = 10 \<and>
   snd (iteration default_config \<lparr>daily_realized_loss = 0, last_reset_date = 100\<rparr>
     (sample_env\<lparr>history_deals_get := Some [foreign_buy_loss]\<rparr>)) =
     Inr \<lparr>daily_realized_loss = 10, last_reset_date = 100\<rparr>"
  using short_latest sample_pip_value sample_lot
  by (simp add: iteration_def daily_reset_def reset_due_def max_loss_reached_def
      trade_step_def size_and_trade_def check_and_place_def should_buy_def should_sell_def
      fl_gt_def fl_lt_def update_daily_loss_def counts_deal_def sample_env_def
      foreign_buy_loss_def spec_daily_loss_def default_config_def)

section \<open>The range of the RSI\<close>

lemma fl_sub_Fin: "fl_sub (Fin a) (Fin b) = Fin (a - b)"
  by (simp add: fl_sub_def)

lemma diff_from_Fin:
  "\<forall>x\<in>set (diff_from (Fin p) (map Fin xs)). \<exists>r. x = Fin r"
  by (induction xs arbitrary: p) (auto simp: fl_sub_Fin)

lemma diff_Fin: "\<forall>x\<in>set (diff (map Fin xs)). x = NaN \<or> (\<exists>r. x = Fin r)"
  using diff_from_Fin by (cases xs) auto

lemma df_close_map: "df_close rates = map Fin (map bar_close rates)"
  by (simp add: df_close_def)

lemma where_gt0_nonneg:
  "\<forall>x\<in>set (where_gt0 (diff (df_close rates))). \<exists>r\<ge>0. x = Fin r"
  using diff_Fin [of "map bar_close rates"]
  by (auto simp: where_gt0_def df_close_map fl_gt_def fl_lt_def)

lemma where_lt0_nonpos:
  "\<forall>x\<in>set (where_lt0 (diff (df_close rates))). \<exists>r\<le>0. x = Fin r"
  using diff_Fin [of "map bar_close rates"]
  by (auto simp: where_lt0_def df_close_map fl_lt_def)

lemma length_where:
  "length (where_gt0 (diff (df_close rates))) = length rates"
  "length (where_lt0 (diff (df_close rates))) = length rates"
  by (simp_all add: where_gt0_def where_lt0_def length_diff df_close_def)

lemma window_mean_undefined: "w = 0 \<or> length ys < w \<Longrightarrow> window_mean w ys = NaN"
  by (auto simp: window_mean_def)

lemma window_mean_nonneg:
  assumes "0 < w" "w \<le> length ys" "\<forall>x\<in>set ys. \<exists>r\<ge>0. x = Fin r"
  shows "\<exists>a\<ge>0. window_mean w ys = Fin a"
proof -
  let ?win = "drop (length ys - w) ys"
  have sub: "\<forall>x\<in>set ?win. \<exists>r\<ge>0. x = Fin r"
    using assms(3) set_drop_subset [of "length ys - w" ys] by blast
  then have fin: "list_all is_finite ?win" by (auto simp: list_all_iff)
  have "0 \<le> sum_list (map fl_val ?win)"
    using sub by (intro sum_list_nonneg) auto
  then have "0 \<le> sum_list (map fl_val ?win) / real w" by simp
  then show ?thesis using assms(1,2) fin by (simp add: window_mean_def Let_def)
qed

lemma window_mean_nonpos:
  assumes "0 < w" "w \<le> length ys" "\<forall>x\<in>set ys. \<exists>r\<le>0. x = Fin r"
  shows "\<exists>b\<le>0. window_mean w ys = Fin b"
proof -
  let ?win = "drop (length ys - w) ys"
  have sub: "\<forall>x\<in>set ?win. \<exists>r\<le>0. x = Fin r"
    using assms(3) set_drop_subset [of "length ys - w" ys] by blast
  then have fin: "list_all is_finite ?win" by (auto simp: list_all_iff)
  have "sum_list (map fl_val ?win) \<le> 0"
    using sub by (intro sum_list_nonpos) auto
  then have "sum_list (map fl_val ?win) / real w \<le> 0" by (simp add: divide_nonpos_nonneg)
  then show ?thesis using assms(1,2) fin by (simp add: window_mean_def Let_def)
qed

lemma rsi_both_zero: "rsi_of_rs (fl_div (Fin 0) (fl_neg (Fin 0))) = NaN"
  by (simp add: rsi_of_rs_def fl_div_def fl_sub_def)

lemma rsi_loss_zero: "0 < a \<Longrightarrow> rsi_of_rs (fl_div (Fin a) (fl_neg (Fin 0))) = Fin 100"
  by (simp add: rsi_of_rs_def fl_div_def inf_of_def zero_of_def fl_sub_def)

lemma rsi_loss_pos:
  assumes "0 \<le> a" "b < 0"
  shows "rsi_of_rs (fl_div (Fin a) (fl_neg (Fin b))) = Fin (100 - 100 / (1 + a / (- b)))"
proof -
  have q: "0 \<le> a / (- b)" using assms by (intro divide_nonneg_pos) auto
  have "fl_div (Fin a) (fl_neg (Fin b)) = Fin (a / (- b))"
    using assms by (auto simp: fl_div_def fin_of_def zero_of_def)
  moreover have "fl_div (Fin 100) (Fin (1 + a / (- b))) = Fin (100 / (1 + a / (- b)))"
    using q by (auto simp: fl_div_def fin_of_def zero_of_def)
  ultimately show ?thesis by (simp add: rsi_of_rs_def fl_sub_Fin)
qed

lemma rsi_loss_pos_range:
  assumes "0 \<le> a" "b < 0"
  shows "0 \<le> 100 - 100 / (1 + a / (- b))" "100 - 100 / (1 + a / (- b)) \<le> (100::real)"
proof -
  have "0 \<le> a / (- b)" using assms by (intro divide_nonneg_pos) auto
  then have q: "1 \<le> 1 + a / (- b)" by simp
  then have "100 / (1 + a / (- b)) \<le> 100 / 1" by (intro divide_left_mono) auto
  then show "0 \<le> 100 - 100 / (1 + a / (- b))" by simp
  have "0 \<le> 100 / (1 + a / (- b))" using q by simp
  then show "100 - 100 / (1 + a / (- b)) \<le> (100::real)" by simp
qed

lemma averages_cases:
  assumes "rates \<noteq> []"
  shows "((rsi_period cfg = 0 \<or> length rates < rsi_period cfg) \<and>
          last (gain cfg rates) = NaN \<and> last (loss cfg rates) = NaN) \<or>
         (0 < rsi_period cfg \<and> rsi_period cfg \<le> length rates \<and>
          (\<exists>a b. 0 \<le> a \<and> b \<le> 0 \<and> last (gain cfg rates) = Fin a \<and>
             last (loss cfg rates) = fl_neg (Fin b)))"
proof (cases "rsi_period cfg = 0 \<or> length rates < rsi_period cfg")
  case True
  then show ?thesis
    using window_mean_undefined [of "rsi_period cfg" "where_gt0 (diff (df_close rates))"]
      window_mean_undefined [of "rsi_period cfg" "where_lt0 (diff (df_close rates))"]
    by (simp add: last_gain [OF assms] last_loss [OF assms] length_where)
next
  case False
  then have w: "0 < rsi_period cfg" "rsi_period cfg \<le> length rates" by auto
  obtain a where a: "0 \<le> a" "last (gain cfg rates) = Fin a"
    using window_mean_nonneg [of "rsi_period cfg" "where_gt0 (diff (df_close rates))"]
      w where_gt0_nonneg [of rates]
    by (auto simp: last_gain [OF assms] length_where)
  obtain b where b: "b \<le> 0" "last (loss cfg rates) = fl_neg (Fin b)"
    using window_mean_nonpos [of "rsi_period cfg" "where_lt0 (diff (df_close rates))"]
      w where_lt0_nonpos [of rates]
    by (auto simp: last_loss [OF assms] length_where)
  show ?thesis using w a b by blast
qed

lemma latest_rsi:
  "latest cfg rates = Inr row \<Longrightarrow>
   rates \<noteq> [] \<and> rsi row = rsi_of_rs (fl_div (last (gain cfg rates)) (last (loss cfg rates)))"
  using latest_Nil [of cfg] latest_Inr [of rates cfg] by (cases "rates = []") auto

text \<open>
  Claim C3, as amended. The RSI of the latest bar is either not-a-number or a value in
  [0, 100]. When the trailing average of losses is zero and the trailing average of
  gains is positive, it is exactly 100. It is not-a-number exactly when the window is
  not full (fewer than \<open>rsi_period\<close> bars, or a period of 0) or when both trailing
  averages are zero, and then it reaches the decision as not-a-number.
\<close>

theorem rsi_range:
  "latest cfg rates = Inr row \<longrightarrow>
     (rsi row = NaN \<or> (\<exists>r. rsi row = Fin r \<and> 0 \<le> r \<and> r \<le> 100)) \<and>
     (is_zero (last (loss cfg rates)) \<and> fl_gt (last (gain cfg rates)) (Fin 0) \<longrightarrow>
        rsi row = Fin 100) \<and>
     (rsi row = NaN \<longleftrightarrow>
        rsi_period cfg = 0 \<or> length rates < rsi_period cfg \<or>
        (is_zero (last (gain cfg rates)) \<and> is_zero (last (loss cfg rates))))"
proof
  assume l: "latest cfg rates = Inr row"
  then have ne: "rates \<noteq> []"
    and r: "rsi row = rsi_of_rs (fl_div (last (gain cfg rates)) (last (loss cfg rates)))"
    using latest_rsi by blast+
  let ?goal = "(rsi row = NaN \<or> (\<exists>r. rsi row = Fin r \<and> 0 \<le> r \<and> r \<le> 100)) \<and>
     (is_zero (last (loss cfg rates)) \<and> fl_gt (last (gain cfg rates)) (Fin 0) \<longrightarrow>
        rsi row = Fin 100) \<and>
     (rsi row = NaN \<longleftrightarrow>
        rsi_period cfg = 0 \<or> length rates < rsi_period cfg \<or>
        (is_zero (last (gain cfg rates)) \<and> is_zero (last (loss cfg rates))))"
  consider (unfilled) "rsi_period cfg = 0 \<or> length rates < rsi_period cfg"
      "last (gain cfg rates) = NaN" "last (loss cfg rates) = NaN"
    | (full) a b where "0 < rsi_period cfg" "rsi_period cfg \<le> length rates"
      "0 \<le> a" "b \<le> 0" "last (gain cfg rates) = Fin a"
      "last (loss cfg rates) = fl_neg (Fin b)"
    using averages_cases [OF ne, of cfg] by blast
  then show ?goal
  proof cases
    case unfilled
    then show ?thesis using r
      by (simp add: rsi_of_rs_def fl_div_def fl_sub_def is_zero_def fl_gt_def fl_lt_def)
  next
    case (full a b)
    then have w: "0 < rsi_period cfg" "rsi_period cfg \<le> length rates"
      and ab: "0 \<le> a" "b \<le> 0"
      and g: "last (gain cfg rates) = Fin a" and lo: "last (loss cfg rates) = fl_neg (Fin b)"
      by simp_all
    have z: "is_zero (last (loss cfg rates)) \<longleftrightarrow> b = 0"
      "is_zero (last (gain cfg rates)) \<longleftrightarrow> a = 0"
      "fl_gt (last (gain cfg rates)) (Fin 0) \<longleftrightarrow> 0 < a"
      by (simp_all add: g lo is_zero_def fl_gt_def fl_lt_def)
    have nw: "\<not> (rsi_period cfg = 0 \<or> length rates < rsi_period cfg)" using w by simp
    show ?thesis
    proof (cases "b = 0")
      case True
      show ?thesis
      proof (cases "a = 0")
        case True
        with \<open>b = 0\<close> have "rsi row = NaN" using r g lo rsi_both_zero by simp
        then show ?thesis using z True \<open>b = 0\<close> by simp
      next
        case False
        then have "0 < a" using ab by simp
        with \<open>b = 0\<close> have "rsi row = Fin 100" using r g lo rsi_loss_zero by simp
        then show ?thesis using z False \<open>b = 0\<close> nw by simp
      qed
    next
      case False
      then have b: "b < 0" using ab by simp
      have "rsi row = Fin (100 - 100 / (1 + a / (- b)))"
        using r g lo rsi_loss_pos [OF ab(1) b] by simp
      then show ?thesis using z False nw rsi_loss_pos_range [OF ab(1) b] by simp
    qed
  qed
qed

theorem rsi_range_witness:
  "latest default_config pullback_rates =
     Inr \<lparr>close_price = Fin 1.1188, sma = Fin 1.105822, rsi = Fin (50 / 7)\<rparr> \<and>
   latest default_config rally_rates =
     Inr \<lparr>close_price = Fin 1.1015, sma = Fin 1.10024, rsi = Fin 100\<rparr> \<and>
   is_zero (last (loss default_config rally_rates)) \<and>
   fl_gt (last (gain default_config rally_rates)) (Fin 0) \<and>
   rsi_period default_config \<noteq> 0 \<and> \<not> length rally_rates < rsi_period default_config \<and>
   \<not> (is_zero (last (gain default_config rally_rates)) \<and>
        is_zero (last (loss default_config rally_rates))) \<and>
   (\<exists>r. Fin (50 / 7) = Fin r \<and> 0 \<le> r \<and> r \<le> 100)"
proof -
  have z: "is_zero (last (loss default_config rally_rates))"
    "fl_gt (last (gain default_config rally_rates)) (Fin 0)"
    "\<not> is_zero (last (gain default_config rally_rates))"
    by (simp_all add: rally_averages is_zero_def fl_gt_def fl_lt_def)
  show ?thesis
    using rsi_range [of default_config pullback_rates
        "\<lparr>close_price = Fin 1.1188, sma = Fin 1.105822, rsi = Fin (50 / 7)\<rparr>"]
      rsi_range [of default_config rally_rates
        "\<lparr>close_price = Fin 1.1015, sma = Fin 1.10024, rsi = Fin 100\<rparr>"]
      pullback_latest rally_latest z
    by simp
qed

text \<open>
  The claim as written fails on a flat window: fifty bars closing at 1.1000 give a
  trailing loss average of zero (and a gain average of zero), and the RSI of the latest
  bar is not-a-number, neither 100 nor any value in [0, 100].
\<close>

theorem rsi_flat_window_counterexample:
  "is_zero (last (loss default_config flat_rates)) \<and>
   latest default_config flat_rates =
     Inr \<lparr>close_price = Fin 1.1, sma = Fin 1.1, rsi = NaN\<rparr> \<and>
   NaN \<noteq> Fin 100 \<and> \<not> fl_lt NaN (Fin 30) \<and> \<not> fl_gt NaN (Fin 70)"
  by (simp add: flat_latest flat_averages is_zero_def fl_lt_def fl_gt_def)

end
